theory Spec2Isabelle
  imports Complex_Main
begin

section \<open>Numbers\<close>

text \<open>
  The TypeScript sources compute with JavaScript numbers, which are IEEE 754 doubles.  The
  development has two levels.

  In the first, a finite number is a \<^typ>\<open>real\<close> and the arithmetic is exact: rounding,
  overflow, underflow and the sign of zero are not modelled.  Almost every division of the
  sources is guarded (the divisor is tested to be positive first); the Barrowman module and
  the stability margin of \<open>getPreLaunchResults\<close> divide unguarded, so their results live
  in the type \<open>jsnum\<close> below, which adds the non-finite results of such a division.

  In the second (the definitions whose names end in \<open>_d\<close>), every literal and every
  arithmetic operation is rounded to the nearest double, ties to even, in the order in which
  the source evaluates.  It is used where rounding decides a property: the atmosphere and
  the mass of the rocket along a trajectory.

  The modules \<open>drag.ts\<close>, \<open>designToSim.ts\<close> and \<open>simulation.ts\<close> stand one after
  another in the file \<open>components/FlightTrail.tsx\<close> of the source tree; the analysis
  route is the unnamed file that imports \<open>getPreLaunchResults\<close>.
\<close>

section \<open>lib/atmosphere.ts\<close>

definition R_AIR :: real where "R_AIR = 287.05"
definition T0 :: real where "T0 = 288.15"
definition RHO0 :: real where "RHO0 = 1.225"
definition LAPSE :: real where "LAPSE = 0.0065"
definition TROPOPAUSE_ALT :: real where "TROPOPAUSE_ALT = 11000"
definition T_TROP :: real where "T_TROP = 216.65"
definition P0 :: real where "P0 = 101325"

definition temperature :: "real \<Rightarrow> real" where
  "temperature altitude =
     (if altitude \<le> 0 then T0
      else if altitude \<le> TROPOPAUSE_ALT then T0 - LAPSE * altitude
      else T_TROP)"

definition density :: "real \<Rightarrow> real" where
  "density altitude =
     (if altitude \<le> 0 then RHO0 else RHO0 * exp (- altitude / 7400))"

definition pressure :: "real \<Rightarrow> real" where
  "pressure altitude =
     (let rho = density altitude; T = temperature altitude in rho * R_AIR * T)"

definition speedOfSound :: "real \<Rightarrow> real" where
  "speedOfSound altitude = (let T = temperature altitude in sqrt (1.4 * R_AIR * T))"

definition machNumber :: "real \<Rightarrow> real \<Rightarrow> real" where
  "machNumber velocity altitude =
     (let a = speedOfSound altitude in if a > 0 then velocity / a else 0)"

section \<open>lib/drag.ts\<close>

text \<open>
  The two non-constant branches of \<open>dragCoefficient\<close> are named, so that a branch can be
  evaluated at a band edge that the guards assign to the other branch.
\<close>

definition cd_transonic :: "real \<Rightarrow> real" where
  "cd_transonic mach =
     (let t = (mach - 0.8) / 0.4 in 0.35 + t * (1.0 - 0.35) + 0.3 * sin (pi * t))"

definition cd_supersonic :: "real \<Rightarrow> real" where
  "cd_supersonic mach = 0.6 - 0.02 * min (mach - 1.2) 2"

definition dragCoefficient :: "real \<Rightarrow> real" where
  "dragCoefficient mach =
     (if mach < 0.8 then 0.35
      else if mach \<le> 1.2 then cd_transonic mach
      else cd_supersonic mach)"

definition dragForceMagnitude :: "real \<Rightarrow> real \<Rightarrow> real \<Rightarrow> real \<Rightarrow> real" where
  "dragForceMagnitude airDensity velocityMagnitude cd_v referenceArea_v =
     0.5 * airDensity * velocityMagnitude * velocityMagnitude * cd_v * referenceArea_v"

section \<open>lib/motors.ts\<close>

record MotorSpec =
  motor_id :: string
  motor_name :: string
  totalImpulse :: real
  burnTime :: real
  propellantMass :: real
  motor_dryMass :: real
  thrustAt :: "real \<Rightarrow> real"

definition trapezoidalThrust :: "real \<Rightarrow> real \<Rightarrow> real \<Rightarrow> real \<Rightarrow> real \<Rightarrow> real" where
  "trapezoidalThrust peakThrust burnTime_v rampUpRatio rampDownRatio =
     (let t1 = burnTime_v * rampUpRatio;
          t2 = burnTime_v * (1 - rampDownRatio)
      in (\<lambda>t.
            if t \<le> 0 \<or> t \<ge> burnTime_v then 0
            else if t < t1 then (peakThrust * t) / t1
            else if t \<le> t2 then peakThrust
            else (peakThrust * (burnTime_v - t)) / (burnTime_v - t2)))"

text \<open>The catalog calls \<open>trapezoidalThrust\<close> with the default ramp ratios 0.1 and 0.2.\<close>

definition MOTORS :: "MotorSpec list" where
  "MOTORS =
   [\<lparr>motor_id = ''estes-a8'', motor_name = ''Estes A8'', totalImpulse = 2.5, burnTime = 0.5,
      propellantMass = 0.006, motor_dryMass = 0.012,
      thrustAt = trapezoidalThrust 5.5 0.5 0.1 0.2\<rparr>,
    \<lparr>motor_id = ''estes-b6'', motor_name = ''Estes B6'', totalImpulse = 5, burnTime = 0.8,
      propellantMass = 0.012, motor_dryMass = 0.012,
      thrustAt = trapezoidalThrust 7.5 0.8 0.1 0.2\<rparr>,
    \<lparr>motor_id = ''estes-c6'', motor_name = ''Estes C6'', totalImpulse = 10, burnTime = 1.6,
      propellantMass = 0.024, motor_dryMass = 0.012,
      thrustAt = trapezoidalThrust 9 1.6 0.1 0.2\<rparr>,
    \<lparr>motor_id = ''estes-d12'', motor_name = ''Estes D12'', totalImpulse = 20, burnTime = 2.2,
      propellantMass = 0.044, motor_dryMass = 0.014,
      thrustAt = trapezoidalThrust 14 2.2 0.1 0.2\<rparr>,
    \<lparr>motor_id = ''custom-mid'', motor_name = ''Custom Mid'', totalImpulse = 50, burnTime = 3,
      propellantMass = 0.08, motor_dryMass = 0.02,
      thrustAt = trapezoidalThrust 25 3 0.1 0.2\<rparr>]"

definition getMotor :: "string \<Rightarrow> MotorSpec option" where
  "getMotor ident = find (\<lambda>m. motor_id m = ident) MOTORS"

section \<open>types/rocket.ts\<close>

datatype NoseShape = Cone | Ogive

record RocketGeometry =
  noseLength :: real
  noseShape :: NoseShape
  bodyDiameter :: real
  bodyLength :: real
  finRootLeadingEdge :: real
  finRootChord :: real
  finTipChord :: real
  finSemispan :: real
  finSweep :: real
  numFins :: real

record RocketDesign =
  geometry :: RocketGeometry
  bodyMass :: real
  finMass :: real
  noseMass :: "real option"
  payloadMass :: real
  payloadPosition :: real
  motorId :: string
  motorPosition :: real

section \<open>Results of unguarded divisions\<close>

text \<open>
  A JavaScript division never fails: a non-zero number over zero is an infinity, zero over
  zero is NaN, and both propagate through the arithmetic that follows.  \<open>jsnum\<close> has the
  finite numbers and these three special values; the operations below follow IEEE 754 on
  the special values and are exact on the finite ones.  A zero divisor is taken to be the
  positive zero.
\<close>

datatype jsnum = Fin real | PInf | NInf | NaN

instantiation jsnum :: "{plus, uminus, minus, times, inverse, ord}"
begin

fun plus_jsnum :: "jsnum \<Rightarrow> jsnum \<Rightarrow> jsnum" where
  "plus_jsnum (Fin a) (Fin b) = Fin (a + b)"
| "plus_jsnum NaN _ = NaN"
| "plus_jsnum _ NaN = NaN"
| "plus_jsnum PInf NInf = NaN"
| "plus_jsnum NInf PInf = NaN"
| "plus_jsnum PInf _ = PInf"
| "plus_jsnum _ PInf = PInf"
| "plus_jsnum NInf _ = NInf"
| "plus_jsnum _ NInf = NInf"

fun uminus_jsnum :: "jsnum \<Rightarrow> jsnum" where
  "uminus_jsnum (Fin a) = Fin (- a)"
| "uminus_jsnum PInf = NInf"
| "uminus_jsnum NInf = PInf"
| "uminus_jsnum NaN = NaN"

definition minus_jsnum :: "jsnum \<Rightarrow> jsnum \<Rightarrow> jsnum" where
  "minus_jsnum a b = a + (- b)"

fun times_jsnum :: "jsnum \<Rightarrow> jsnum \<Rightarrow> jsnum" where
  "times_jsnum (Fin a) (Fin b) = Fin (a * b)"
| "times_jsnum NaN _ = NaN"
| "times_jsnum _ NaN = NaN"
| "times_jsnum (Fin a) PInf = (if a = 0 then NaN else if 0 < a then PInf else NInf)"
| "times_jsnum (Fin a) NInf = (if a = 0 then NaN else if 0 < a then NInf else PInf)"
| "times_jsnum PInf (Fin b) = (if b = 0 then NaN else if 0 < b then PInf else NInf)"
| "times_jsnum NInf (Fin b) = (if b = 0 then NaN else if 0 < b then NInf else PInf)"
| "times_jsnum PInf PInf = PInf"
| "times_jsnum NInf NInf = PInf"
| "times_jsnum PInf NInf = NInf"
| "times_jsnum NInf PInf = NInf"

fun divide_jsnum :: "jsnum \<Rightarrow> jsnum \<Rightarrow> jsnum" where
  "divide_jsnum (Fin a) (Fin b) =
     (if b \<noteq> 0 then Fin (a / b)
      else if a = 0 then NaN else if 0 < a then PInf else NInf)"
| "divide_jsnum NaN _ = NaN"
| "divide_jsnum _ NaN = NaN"
| "divide_jsnum (Fin a) PInf = Fin 0"
| "divide_jsnum (Fin a) NInf = Fin 0"
| "divide_jsnum PInf (Fin b) = (if 0 \<le> b then PInf else NInf)"
| "divide_jsnum NInf (Fin b) = (if 0 \<le> b then NInf else PInf)"
| "divide_jsnum PInf PInf = NaN"
| "divide_jsnum PInf NInf = NaN"
| "divide_jsnum NInf PInf = NaN"
| "divide_jsnum NInf NInf = NaN"

fun inverse_jsnum :: "jsnum \<Rightarrow> jsnum" where
  "inverse_jsnum (Fin a) = (if a \<noteq> 0 then Fin (1 / a) else PInf)"
| "inverse_jsnum PInf = Fin 0"
| "inverse_jsnum NInf = Fin 0"
| "inverse_jsnum NaN = NaN"

fun less_eq_jsnum :: "jsnum \<Rightarrow> jsnum \<Rightarrow> bool" where
  "less_eq_jsnum (Fin a) (Fin b) = (a \<le> b)"
| "less_eq_jsnum NaN _ = False"
| "less_eq_jsnum _ NaN = False"
| "less_eq_jsnum NInf _ = True"
| "less_eq_jsnum _ PInf = True"
| "less_eq_jsnum PInf _ = False"
| "less_eq_jsnum _ NInf = False"

fun less_jsnum :: "jsnum \<Rightarrow> jsnum \<Rightarrow> bool" where
  "less_jsnum (Fin a) (Fin b) = (a < b)"
| "less_jsnum NaN _ = False"
| "less_jsnum _ NaN = False"
| "less_jsnum PInf _ = False"
| "less_jsnum _ NInf = False"
| "less_jsnum NInf _ = True"
| "less_jsnum _ PInf = True"

instance ..

end

text \<open>\<open>Math.sqrt\<close> and squaring (\<open>Math.pow(x, 2)\<close>, \<open>x ** 2\<close>) on \<open>jsnum\<close>.\<close>

fun js_sqrt :: "jsnum \<Rightarrow> jsnum" where
  "js_sqrt (Fin a) = (if a < 0 then NaN else Fin (sqrt a))"
| "js_sqrt PInf = PInf"
| "js_sqrt NInf = NaN"
| "js_sqrt NaN = NaN"

fun js_pow2 :: "jsnum \<Rightarrow> jsnum" where
  "js_pow2 (Fin a) = Fin (a * a)"
| "js_pow2 PInf = PInf"
| "js_pow2 NInf = PInf"
| "js_pow2 NaN = NaN"

section \<open>lib/barrowman.ts\<close>

record Terms =
  CN :: jsnum
  X :: jsnum

definition noseTerms :: "real \<Rightarrow> NoseShape \<Rightarrow> Terms" where
  "noseTerms ln_v shape =
     (let CN_N = 2;
          XN = (if shape = Cone then (2 / 3) * ln_v else 0.466 * ln_v)
      in \<lparr>CN = Fin CN_N, X = Fin XN\<rparr>)"

definition finTerms :: "RocketGeometry \<Rightarrow> Terms" where
  "finTerms g =
     (let d = bodyDiameter g;
          R = d / 2;
          S = finSemispan g;
          CR = finRootChord g;
          CT = finTipChord g;
          XR = finSweep g;
          XB = finRootLeadingEdge g;
          N = numFins g;
          K_FB = Fin 1 + Fin R / Fin (S + R);
          midChordHorizontal = XR + (CT - CR) / 2;
          LF = sqrt (S * S + midChordHorizontal * midChordHorizontal);
          denom = Fin 1 + js_sqrt (Fin 1 + js_pow2 (Fin (2 * LF) / Fin (CR + CT)));
          CN_F = K_FB * (Fin (4 * N) * js_pow2 (Fin S / Fin d)) / denom;
          XF = Fin XB
               + Fin (XR / 3) * (Fin (CR + 2 * CT) / Fin (CR + CT))
               + Fin (1 / 6) * (Fin (CR * CR + CT * CT + CR * CT) / Fin (CR + CT))
      in \<lparr>CN = CN_F, X = XF\<rparr>)"

definition centerOfPressure :: "RocketGeometry \<Rightarrow> jsnum" where
  "centerOfPressure g =
     (let nose = noseTerms (noseLength g) (noseShape g);
          fin = finTerms g;
          totalCN = CN nose + CN fin
      in if totalCN \<le> Fin 0 then Fin 0
         else (CN nose * X nose + CN fin * X fin) / totalCN)"

definition referenceArea :: "RocketGeometry \<Rightarrow> real" where
  "referenceArea g = (let r = bodyDiameter g / 2 in pi * r * r)"

definition stabilityMarginCalibers :: "jsnum \<Rightarrow> real \<Rightarrow> real \<Rightarrow> jsnum" where
  "stabilityMarginCalibers cpFromNose cgFromNose diameter =
     (cpFromNose - Fin cgFromNose) / Fin diameter"

definition isStable :: "jsnum \<Rightarrow> real \<Rightarrow> bool" where
  "isStable calibers minCalibers = (Fin minCalibers \<le> calibers)"

section \<open>lib/cg.ts\<close>

record MassComponent =
  positionFromNose :: real
  comp_mass :: real

text \<open>The loop of \<open>computeCG\<close>, carrying the pair \<open>(sumMx, sumM)\<close>.\<close>

fun computeCG_loop :: "MassComponent list \<Rightarrow> real \<times> real \<Rightarrow> real \<times> real" where
  "computeCG_loop [] (sumMx, sumM) = (sumMx, sumM)"
| "computeCG_loop (c # cs) (sumMx, sumM) =
     computeCG_loop cs (sumMx + comp_mass c * positionFromNose c, sumM + comp_mass c)"

definition computeCG :: "MassComponent list \<Rightarrow> real" where
  "computeCG components =
     (case computeCG_loop components (0, 0) of
        (sumMx, sumM) \<Rightarrow> if sumM \<le> 0 then 0 else sumMx / sumM)"

record CGParams =
  cg_noseLength :: real
  cg_bodyLength :: real
  cg_bodyDiameter :: real
  cg_finRootLeadingEdge :: real
  cg_finRootChord :: real
  cg_finTipChord :: real
  cg_noseMass :: "real option"
  cg_bodyMass :: real
  cg_finMass :: real
  cg_payloadMass :: real
  cg_payloadPosition :: real
  motorMass :: real
  cg_motorPosition :: real

definition NOSE_DENSITY :: real where "NOSE_DENSITY = 500"

definition buildCGComponents :: "CGParams \<Rightarrow> MassComponent list" where
  "buildCGComponents p =
     (let noseMass_v =
            (case cg_noseMass p of
               Some m \<Rightarrow> m
             | None \<Rightarrow> (1 / 3) * pi * (cg_bodyDiameter p / 2)\<^sup>2 * cg_noseLength p * NOSE_DENSITY);
          finCenterX = cg_finRootLeadingEdge p + (cg_finRootChord p + cg_finTipChord p) / 4
      in [\<lparr>positionFromNose = (3 / 4) * cg_noseLength p, comp_mass = noseMass_v\<rparr>,
          \<lparr>positionFromNose = cg_noseLength p + cg_bodyLength p / 2, comp_mass = cg_bodyMass p\<rparr>,
          \<lparr>positionFromNose = finCenterX, comp_mass = cg_finMass p\<rparr>]
         @ (if cg_payloadMass p > 0
            then [\<lparr>positionFromNose = cg_payloadPosition p, comp_mass = cg_payloadMass p\<rparr>]
            else [])
         @ [\<lparr>positionFromNose = cg_motorPosition p, comp_mass = motorMass p\<rparr>])"

definition centerOfGravity :: "CGParams \<Rightarrow> real" where
  "centerOfGravity p = computeCG (buildCGComponents p)"

section \<open>lib/simulation.ts\<close>

definition G :: real where "G = 9.81"

definition thrustAltitudeFactor :: "real \<Rightarrow> real" where
  "thrustAltitudeFactor altitude_v =
     (let p = pressure altitude_v; ratio = p / P0 in 1 + 0.12 * (1 - max 0 ratio))"

datatype Phase = Pre | Burn | Coast | Apogee | Recovery

record TrailPoint =
  tp_altitude :: real
  tp_velocity :: real
  tp_mach :: real
  tp_time :: real

record SimulationState =
  time :: real
  altitude :: real
  velocity :: real
  acceleration :: real
  mass :: real
  mach :: real
  cd :: real
  airDensity :: real
  thrust :: real
  drag :: real
  phase :: Phase
  apogee :: real
  trail :: "TrailPoint list"

text \<open>The three optional fields of \<open>SimulationParams\<close> are options.\<close>

record SimulationParams =
  p_referenceArea :: real
  dryMass :: real
  motor :: MotorSpec
  motorStartTime :: "real option"
  deployAtApogee :: "bool option"
  maxTrailPoints :: "real option"

definition MAX_TRAIL :: real where "MAX_TRAIL = 500"
definition DT :: real where "DT = 1 / 60"

definition initialState :: "SimulationParams \<Rightarrow> SimulationState" where
  "initialState params =
     (let motor_v = motor params;
          mass_v = dryMass params + propellantMass motor_v + motor_dryMass motor_v
      in \<lparr>time = 0, altitude = 0, velocity = 0, acceleration = 0, mass = mass_v, mach = 0,
          cd = dragCoefficient 0, airDensity = density 0, thrust = 0, drag = 0,
          phase = Pre, apogee = 0, trail = []\<rparr>)"

text \<open>
  \<open>stepSimulation\<close>: the assignments to the mutable locals \<open>mass\<close>, \<open>phase\<close> and
  \<open>apogee\<close> are threaded through in the order of the source (\<open>phase1\<close>, \<open>phase2\<close>, ...
  are the successive values of \<open>phase\<close>).  \<open>trail.shift()\<close> drops the first entry.
\<close>

definition stepSimulation :: "SimulationState \<Rightarrow> SimulationParams \<Rightarrow> real \<Rightarrow> SimulationState" where
  "stepSimulation state params dt =
     (let referenceArea_v = p_referenceArea params;
          dryMass_v = dryMass params;
          motor_v = motor params;
          motorStartTime_v = (case motorStartTime params of Some x \<Rightarrow> x | None \<Rightarrow> 0);
          t = time state + dt;
          h = altitude state;
          v = velocity state;
          burnTime_v = burnTime motor_v;
          inBurn = (t \<ge> motorStartTime_v \<and> t < motorStartTime_v + burnTime_v);
          burnElapsed = (if inBurn then t - motorStartTime_v else 0);
          mass_v =
            (if inBurn then
               (let propUsed = (burnElapsed / burnTime_v) * propellantMass motor_v
                in dryMass_v + motor_dryMass motor_v + propellantMass motor_v - propUsed)
             else if t \<ge> motorStartTime_v + burnTime_v \<and> phase state = Burn then
               dryMass_v + motor_dryMass motor_v
             else mass state);
          thrustRaw = (if inBurn then thrustAt motor_v burnElapsed else 0);
          thrust_v = thrustRaw * (if inBurn then thrustAltitudeFactor h else 1);
          rho = density h;
          mach_v = machNumber \<bar>v\<bar> h;
          cd_v = dragCoefficient mach_v;
          dragMag = dragForceMagnitude rho \<bar>v\<bar> cd_v referenceArea_v;
          drag_v = (if v \<ge> 0 then - dragMag else dragMag);
          gravity = - G * mass_v;
          netForce = thrust_v + drag_v + gravity;
          acceleration_v = (if mass_v > 0 then netForce / mass_v else 0);
          newVelocity = v + acceleration_v * dt;
          newAltitude = max 0 (h + v * dt + 0.5 * acceleration_v * dt * dt);
          phase0 = phase state;
          apogee0 = apogee state;
          phase1 =
            (if phase state = Pre
                \<and> (case motorStartTime params of Some x \<Rightarrow> x | None \<Rightarrow> 0) \<le> t
             then (if inBurn then Burn else Coast) else phase0);
          phase2 = (if phase state = Burn \<and> \<not> inBurn then Coast else phase1);
          apogee1 = (if phase2 = Coast then max apogee0 h else apogee0);
          phase3 = (if phase2 = Coast \<and> v < 0 then Apogee else phase2);
          phase4 = (if phase state = Apogee then Recovery else phase3);
          pushed = trail state
                   @ [\<lparr>tp_altitude = newAltitude, tp_velocity = newVelocity,
                       tp_mach = mach_v, tp_time = t\<rparr>];
          maxTrail = (case maxTrailPoints params of Some x \<Rightarrow> x | None \<Rightarrow> MAX_TRAIL);
          trail_v = (if real (length pushed) > maxTrail then tl pushed else pushed)
      in \<lparr>time = t, altitude = newAltitude, velocity = newVelocity,
          acceleration = acceleration_v, mass = mass_v, mach = mach_v, cd = cd_v,
          airDensity = rho, thrust = thrust_v, drag = drag_v, phase = phase4,
          apogee = apogee1, trail = trail_v\<rparr>)"

definition createSimulationState :: "SimulationParams \<Rightarrow> SimulationState" where
  "createSimulationState params = initialState params"

section \<open>lib/designToSim.ts\<close>

definition getSimParams :: "RocketDesign \<Rightarrow> SimulationParams option" where
  "getSimParams design =
     (case getMotor (motorId design) of
        None \<Rightarrow> None
      | Some motor_v \<Rightarrow>
          (let g = geometry design;
               noseMass_v =
                 (case noseMass design of
                    Some m \<Rightarrow> m
                  | None \<Rightarrow> (1 / 3) * pi * (bodyDiameter g / 2)\<^sup>2 * noseLength g * 500);
               dryMass_v = noseMass_v + bodyMass design + finMass design
                           + payloadMass design + motor_dryMass motor_v
           in Some \<lparr>p_referenceArea = referenceArea g, dryMass = dryMass_v, motor = motor_v,
                    motorStartTime = Some 0, deployAtApogee = Some True,
                    maxTrailPoints = Some 500\<rparr>))"

record PreLaunchResults =
  res_cp :: jsnum
  res_cg :: real
  res_stabilityCalibers :: jsnum
  res_isStable :: bool

definition getPreLaunchResults :: "RocketDesign \<Rightarrow> PreLaunchResults" where
  "getPreLaunchResults design =
     (let g = geometry design;
          cp_v = centerOfPressure g;
          cg_v = centerOfGravity
                   \<lparr>cg_noseLength = noseLength g, cg_bodyLength = bodyLength g,
                    cg_bodyDiameter = bodyDiameter g,
                    cg_finRootLeadingEdge = finRootLeadingEdge g,
                    cg_finRootChord = finRootChord g, cg_finTipChord = finTipChord g,
                    cg_noseMass = noseMass design, cg_bodyMass = bodyMass design,
                    cg_finMass = finMass design, cg_payloadMass = payloadMass design,
                    cg_payloadPosition = payloadPosition design,
                    motorMass =
                      (case getMotor (motorId design) of
                         Some m \<Rightarrow> propellantMass m + motor_dryMass m
                       | None \<Rightarrow> 0.03),
                    cg_motorPosition = motorPosition design\<rparr>;
          diameter = bodyDiameter g;
          stabilityCalibers_v = (cp_v - Fin cg_v) / Fin diameter;
          isStable_v = (Fin 1 \<le> stabilityCalibers_v)
      in \<lparr>res_cp = cp_v, res_cg = cg_v, res_stabilityCalibers = stabilityCalibers_v,
          res_isStable = isStable_v\<rparr>)"

definition createInitialSimState :: "RocketDesign \<Rightarrow> SimulationState option" where
  "createInitialSimState design =
     (case getSimParams design of
        None \<Rightarrow> None
      | Some params \<Rightarrow> Some (createSimulationState params))"

section \<open>app/api/simulation/run/route.ts and the analysis route\<close>

record Telemetry =
  tel_time :: real
  tel_altitude :: real
  tel_velocity :: real

text \<open>
  A response is an error with its message and HTTP status, the result of a run, or the
  result of an analysis.  The request body either has a design or has none.
\<close>

datatype Response =
    ErrorResponse string nat
  | RunResponse "SimulationState list" "Telemetry list"
  | AnalysisResponse PreLaunchResults

text \<open>
  The \<open>while\<close> loop of the run route.  It stops when the time ceiling or phase
  \<open>recovery\<close> is reached, or (the safety guard) when more than
  \<open>Math.ceil(maxTime / dt) + 10\<close> states have been collected.
\<close>

function run_loop ::
  "SimulationParams \<Rightarrow> real \<Rightarrow> real \<Rightarrow> SimulationState \<Rightarrow> SimulationState list
     \<Rightarrow> SimulationState list" where
  "run_loop params dt maxTime state states =
     (if time state < maxTime \<and> phase state \<noteq> Recovery then
        (let state' = stepSimulation state params dt;
             states' = states @ [state']
         in if int (length states') > \<lceil>maxTime / dt\<rceil> + 10 then states'
            else run_loop params dt maxTime state' states')
      else states)"
  by pat_completeness auto
termination
  by (relation "measure (\<lambda>(params, dt, maxTime, state, states).
                  nat (\<lceil>maxTime / dt\<rceil> + 11) - length states)") auto

definition POST_run :: "RocketDesign option \<Rightarrow> Response" where
  "POST_run body_design =
     (case body_design of
        None \<Rightarrow> ErrorResponse ''Missing design'' 400
      | Some design \<Rightarrow>
          (case getSimParams design of
             None \<Rightarrow> ErrorResponse ''Invalid motor or design'' 400
           | Some params \<Rightarrow>
               (let dt = 1 / 60;
                    maxTime = 120;
                    state = createSimulationState params;
                    states = run_loop params dt maxTime state [state];
                    telemetryHistory =
                      map (\<lambda>s. \<lparr>tel_time = time s, tel_altitude = altitude s,
                                  tel_velocity = velocity s\<rparr>) states
                in RunResponse states telemetryHistory)))"

definition POST_analyze :: "RocketDesign option \<Rightarrow> Response" where
  "POST_analyze body_design =
     (case body_design of
        None \<Rightarrow> ErrorResponse ''Missing design'' 400
      | Some design \<Rightarrow> AnalysisResponse (getPreLaunchResults design))"

section \<open>Trajectories\<close>

text \<open>
  \<open>trajectory params dt n\<close> is the state after \<open>n\<close> executions of the loop body
  \<open>state = stepSimulation(state, params, dt)\<close>, started from
  \<open>createSimulationState(params)\<close>.  \<open>phase_rank\<close> is the position of a phase in the
  order pre, burn, coast, apogee, recovery.
\<close>

primrec trajectory :: "SimulationParams \<Rightarrow> real \<Rightarrow> nat \<Rightarrow> SimulationState" where
  "trajectory params dt 0 = createSimulationState params"
| "trajectory params dt (Suc n) = stepSimulation (trajectory params dt n) params dt"

fun phase_rank :: "Phase \<Rightarrow> nat" where
  "phase_rank Pre = 0"
| "phase_rank Burn = 1"
| "phase_rank Coast = 2"
| "phase_rank Apogee = 3"
| "phase_rank Recovery = 4"

section \<open>Locals of the step and example inputs\<close>

text \<open>
  \<open>start_of\<close> and \<open>in_burn\<close> are the locals \<open>motorStartTime\<close> and \<open>inBurn\<close> of
  \<open>stepSimulation\<close> as functions of the parameters and the new time; \<open>trail_cap\<close> is
  its local \<open>maxTrail\<close>.
\<close>

definition start_of :: "SimulationParams \<Rightarrow> real" where
  "start_of p = (case motorStartTime p of Some x \<Rightarrow> x | None \<Rightarrow> 0)"

definition in_burn :: "SimulationParams \<Rightarrow> real \<Rightarrow> bool" where
  "in_burn p t = (start_of p \<le> t \<and> t < start_of p + burnTime (motor p))"

definition trail_cap :: "SimulationParams \<Rightarrow> real" where
  "trail_cap p = (case maxTrailPoints p of Some x \<Rightarrow> x | None \<Rightarrow> MAX_TRAIL)"

text \<open>
  A trail is ordered oldest-first when the sample times increase strictly along it and
  none is later than the state's own time.
\<close>

definition trail_ordered :: "SimulationState \<Rightarrow> bool" where
  "trail_ordered s =
     (sorted_wrt (<) (map tp_time (trail s)) \<and> list_all (\<lambda>x. tp_time x \<le> time s) (trail s))"

text \<open>
  Example inputs: a small rocket flown on the catalog motor Estes C6, the parameters
  \<open>getSimParams\<close> derives from it, the same design with a motor that is not in the
  catalog, and a state in a given phase.
\<close>

definition design_c6 :: RocketDesign where
  "design_c6 =
     \<lparr>geometry = \<lparr>noseLength = 0.1, noseShape = Cone, bodyDiameter = 0.04, bodyLength = 0.4,
                   finRootLeadingEdge = 0.4, finRootChord = 0.08, finTipChord = 0.04,
                   finSemispan = 0.05, finSweep = 0.03, numFins = 3\<rparr>,
      bodyMass = 0.05, finMass = 0.01, noseMass = Some 0.02, payloadMass = 0.02,
      payloadPosition = 0.2, motorId = ''estes-c6'', motorPosition = 0.45\<rparr>"

definition motor_c6 :: MotorSpec where
  "motor_c6 =
     \<lparr>motor_id = ''estes-c6'', motor_name = ''Estes C6'', totalImpulse = 10, burnTime = 1.6,
      propellantMass = 0.024, motor_dryMass = 0.012,
      thrustAt = trapezoidalThrust 9 1.6 0.1 0.2\<rparr>"

definition params_c6 :: SimulationParams where
  "params_c6 =
     \<lparr>p_referenceArea = referenceArea (geometry design_c6), dryMass = 0.112, motor = motor_c6,
      motorStartTime = Some 0, deployAtApogee = Some True, maxTrailPoints = Some 500\<rparr>"

definition design_unknown :: RocketDesign where
  "design_unknown = design_c6\<lparr>motorId := ''estes-z99''\<rparr>"

definition state_in :: "Phase \<Rightarrow> SimulationState" where
  "state_in ph =
     \<lparr>time = 5, altitude = 100, velocity = - 1, acceleration = - 9.81, mass = 0.124,
      mach = 0, cd = 0.35, airDensity = 1.2, thrust = 0, drag = 0, phase = ph,
      apogee = 100, trail = []\<rparr>"

text \<open>Parameters with a trail capacity of 2, and a state whose trail is full for them.\<close>

definition params_cap2 :: SimulationParams where
  "params_cap2 = params_c6\<lparr>maxTrailPoints := Some 2\<rparr>"

definition state_two :: SimulationState where
  "state_two = (state_in Coast)
     \<lparr>trail := [\<lparr>tp_altitude = 99, tp_velocity = 1, tp_mach = 0, tp_time = 4\<rparr>,
                 \<lparr>tp_altitude = 100, tp_velocity = 0, tp_mach = 0, tp_time = 5\<rparr>]\<rparr>"

text \<open>
  The full wet mass in the words of the specification: nose, body, fins, payload and motor
  casing, each counted once, plus the motor's propellant.
\<close>

definition spec_wet_mass :: "RocketDesign \<Rightarrow> MotorSpec \<Rightarrow> real" where
  "spec_wet_mass design m =
     (case noseMass design of
        Some x \<Rightarrow> x
      | None \<Rightarrow> (1 / 3) * pi * (bodyDiameter (geometry design) / 2)\<^sup>2
                  * noseLength (geometry design) * 500)
     + bodyMass design + finMass design + payloadMass design
     + motor_dryMass m + propellantMass m"

text \<open>The example design without fins: zero root chord, tip chord and semispan.\<close>

definition geometry_no_fins :: RocketGeometry where
  "geometry_no_fins =
     (geometry design_c6)\<lparr>finRootChord := 0, finTipChord := 0, finSemispan := 0\<rparr>"

text \<open>The example design with fins of zero semispan only.\<close>

definition geometry_no_span :: RocketGeometry where
  "geometry_no_span = (geometry design_c6)\<lparr>finSemispan := 0\<rparr>"

section \<open>Doubles\<close>

text \<open>
  A double is a real of the form \<open>m * 2 ^ (e - 52)\<close> with an integer \<open>m\<close> of at most 53
  bits and an exponent \<open>e \<ge> - 1022\<close> (the subnormal numbers are those with
  \<open>e = - 1022\<close> and a shorter \<open>m\<close>).  \<open>rd x\<close> is the double nearest to \<open>x\<close>, ties
  going to the even \<open>m\<close>.  The exponent is not bounded above: overflow to Infinity is not
  modelled, nor are NaN and the sign of zero.  \<open>fadd\<close>, \<open>fsub\<close>, \<open>fmul\<close> and
  \<open>fdiv\<close> are the four operations of the sources on doubles; a decimal literal \<open>c\<close> of
  the sources is the double \<open>rd c\<close>.
\<close>

definition pow2 :: "int \<Rightarrow> real" where
  "pow2 k = (if 0 \<le> k then 2 ^ nat k else 1 / 2 ^ nat (- k))"

definition round_even :: "real \<Rightarrow> int" where
  "round_even y =
     (let f = \<lfloor>y\<rfloor>; r = y - of_int f
      in if r < 1 / 2 then f else if 1 / 2 < r then f + 1
         else if even f then f else f + 1)"

definition expo :: "real \<Rightarrow> int" where
  "expo x = max \<lfloor>log 2 \<bar>x\<bar>\<rfloor> (- 1022)"

definition rd :: "real \<Rightarrow> real" where
  "rd x =
     (if x = 0 then 0
      else pow2 (expo x - 52) * of_int (round_even (x / pow2 (expo x - 52))))"

definition fadd :: "real \<Rightarrow> real \<Rightarrow> real" where "fadd a b = rd (a + b)"
definition fsub :: "real \<Rightarrow> real \<Rightarrow> real" where "fsub a b = rd (a - b)"
definition fmul :: "real \<Rightarrow> real \<Rightarrow> real" where "fmul a b = rd (a * b)"
definition fdiv :: "real \<Rightarrow> real \<Rightarrow> real" where "fdiv a b = rd (a / b)"

text \<open>
  ECMAScript leaves \<open>Math.exp\<close>, \<open>Math.sin\<close>, \<open>Math.sqrt\<close> and exponentiation
  implementation-approximated, so the functions below take them as a parameter.
  \<open>m_pow2\<close> stands for \<open>x ** 2\<close>.  \<open>correctly_rounded\<close> is the library that returns
  the double nearest to the exact result.  \<open>Math.PI\<close> is the double nearest to \<open>pi\<close>.
\<close>

record MathLib =
  m_exp :: "real \<Rightarrow> real"
  m_sin :: "real \<Rightarrow> real"
  m_sqrt :: "real \<Rightarrow> real"
  m_pow2 :: "real \<Rightarrow> real"

definition PI_d :: real where "PI_d = rd pi"

definition correctly_rounded :: MathLib where
  "correctly_rounded =
     \<lparr>m_exp = (\<lambda>x. rd (exp x)), m_sin = (\<lambda>x. rd (sin x)), m_sqrt = (\<lambda>x. rd (sqrt x)),
      m_pow2 = (\<lambda>x. rd (x * x))\<rparr>"

section \<open>lib/atmosphere.ts in doubles\<close>

definition R_AIR_d :: real where "R_AIR_d = rd 287.05"
definition T0_d :: real where "T0_d = rd 288.15"
definition RHO0_d :: real where "RHO0_d = rd 1.225"
definition LAPSE_d :: real where "LAPSE_d = rd 0.0065"
definition T_TROP_d :: real where "T_TROP_d = rd 216.65"

definition temperature_d :: "real \<Rightarrow> real" where
  "temperature_d alt =
     (if alt \<le> 0 then T0_d
      else if alt \<le> TROPOPAUSE_ALT then fsub T0_d (fmul LAPSE_d alt)
      else T_TROP_d)"

definition density_d :: "MathLib \<Rightarrow> real \<Rightarrow> real" where
  "density_d lib alt =
     (if alt \<le> 0 then RHO0_d
      else fmul RHO0_d (m_exp lib (fdiv (- alt) 7400)))"

definition pressure_d :: "MathLib \<Rightarrow> real \<Rightarrow> real" where
  "pressure_d lib alt =
     (let rho = density_d lib alt; T = temperature_d alt
      in fmul (fmul rho R_AIR_d) T)"

definition speedOfSound_d :: "MathLib \<Rightarrow> real \<Rightarrow> real" where
  "speedOfSound_d lib alt =
     (let T = temperature_d alt in m_sqrt lib (fmul (fmul (rd 1.4) R_AIR_d) T))"

definition machNumber_d :: "MathLib \<Rightarrow> real \<Rightarrow> real \<Rightarrow> real" where
  "machNumber_d lib vel alt =
     (let a = speedOfSound_d lib alt in if a > 0 then fdiv vel a else 0)"

section \<open>lib/drag.ts in doubles\<close>

definition dragCoefficient_d :: "MathLib \<Rightarrow> real \<Rightarrow> real" where
  "dragCoefficient_d lib m =
     (if m < rd 0.8 then rd 0.35
      else if m \<le> rd 1.2 then
        (let t = fdiv (fsub m (rd 0.8)) (rd 0.4)
         in fadd (fadd (rd 0.35) (fmul t (fsub 1.0 (rd 0.35))))
                 (fmul (rd 0.3) (m_sin lib (fmul PI_d t))))
      else fsub (rd 0.6) (fmul (rd 0.02) (min (fsub m (rd 1.2)) 2)))"

definition dragForceMagnitude_d :: "real \<Rightarrow> real \<Rightarrow> real \<Rightarrow> real \<Rightarrow> real" where
  "dragForceMagnitude_d airDensity_v velocityMagnitude cd_v referenceArea_v =
     fmul (fmul (fmul (fmul (fmul 0.5 airDensity_v) velocityMagnitude) velocityMagnitude) cd_v)
          referenceArea_v"

section \<open>lib/motors.ts in doubles\<close>

definition trapezoidalThrust_d :: "real \<Rightarrow> real \<Rightarrow> real \<Rightarrow> real \<Rightarrow> real \<Rightarrow> real" where
  "trapezoidalThrust_d peakThrust burnTime_v rampUpRatio rampDownRatio =
     (let t1 = fmul burnTime_v rampUpRatio;
          t2 = fmul burnTime_v (fsub 1 rampDownRatio)
      in (\<lambda>t.
            if t \<le> 0 \<or> t \<ge> burnTime_v then 0
            else if t < t1 then fdiv (fmul peakThrust t) t1
            else if t \<le> t2 then peakThrust
            else fdiv (fmul peakThrust (fsub burnTime_v t)) (fsub burnTime_v t2)))"

definition MOTORS_d :: "MotorSpec list" where
  "MOTORS_d =
   [\<lparr>motor_id = ''estes-a8'', motor_name = ''Estes A8'', totalImpulse = rd 2.5,
      burnTime = rd 0.5, propellantMass = rd 0.006, motor_dryMass = rd 0.012,
      thrustAt = trapezoidalThrust_d (rd 5.5) (rd 0.5) (rd 0.1) (rd 0.2)\<rparr>,
    \<lparr>motor_id = ''estes-b6'', motor_name = ''Estes B6'', totalImpulse = 5,
      burnTime = rd 0.8, propellantMass = rd 0.012, motor_dryMass = rd 0.012,
      thrustAt = trapezoidalThrust_d (rd 7.5) (rd 0.8) (rd 0.1) (rd 0.2)\<rparr>,
    \<lparr>motor_id = ''estes-c6'', motor_name = ''Estes C6'', totalImpulse = 10,
      burnTime = rd 1.6, propellantMass = rd 0.024, motor_dryMass = rd 0.012,
      thrustAt = trapezoidalThrust_d 9 (rd 1.6) (rd 0.1) (rd 0.2)\<rparr>,
    \<lparr>motor_id = ''estes-d12'', motor_name = ''Estes D12'', totalImpulse = 20,
      burnTime = rd 2.2, propellantMass = rd 0.044, motor_dryMass = rd 0.014,
      thrustAt = trapezoidalThrust_d 14 (rd 2.2) (rd 0.1) (rd 0.2)\<rparr>,
    \<lparr>motor_id = ''custom-mid'', motor_name = ''Custom Mid'', totalImpulse = 50,
      burnTime = 3, propellantMass = rd 0.08, motor_dryMass = rd 0.02,
      thrustAt = trapezoidalThrust_d 25 3 (rd 0.1) (rd 0.2)\<rparr>]"

definition getMotor_d :: "string \<Rightarrow> MotorSpec option" where
  "getMotor_d ident = find (\<lambda>m. motor_id m = ident) MOTORS_d"

section \<open>lib/simulation.ts in doubles\<close>

text \<open>\<open>DT_d\<close> is the timestep \<open>1 / 60\<close> as the sources compute it.\<close>

definition G_d :: real where "G_d = rd 9.81"

definition thrustAltitudeFactor_d :: "MathLib \<Rightarrow> real \<Rightarrow> real" where
  "thrustAltitudeFactor_d lib altitude_v =
     (let p = pressure_d lib altitude_v; ratio = fdiv p P0
      in fadd 1 (fmul (rd 0.12) (fsub 1 (max 0 ratio))))"

definition DT_d :: real where "DT_d = fdiv 1 60"

definition initialState_d :: "MathLib \<Rightarrow> SimulationParams \<Rightarrow> SimulationState" where
  "initialState_d lib params =
     (let motor_v = motor params;
          mass_v = fadd (fadd (dryMass params) (propellantMass motor_v)) (motor_dryMass motor_v)
      in \<lparr>time = 0, altitude = 0, velocity = 0, acceleration = 0, mass = mass_v, mach = 0,
          cd = dragCoefficient_d lib 0, airDensity = density_d lib 0, thrust = 0, drag = 0,
          phase = Pre, apogee = 0, trail = []\<rparr>)"

definition stepSimulation_d ::
  "MathLib \<Rightarrow> SimulationState \<Rightarrow> SimulationParams \<Rightarrow> real \<Rightarrow> SimulationState" where
  "stepSimulation_d lib state params dt =
     (let referenceArea_v = p_referenceArea params;
          dryMass_v = dryMass params;
          motor_v = motor params;
          motorStartTime_v = (case motorStartTime params of Some x \<Rightarrow> x | None \<Rightarrow> 0);
          t = fadd (time state) dt;
          h = altitude state;
          v = velocity state;
          burnTime_v = burnTime motor_v;
          inBurn = (t \<ge> motorStartTime_v \<and> t < fadd motorStartTime_v burnTime_v);
          burnElapsed = (if inBurn then fsub t motorStartTime_v else 0);
          mass_v =
            (if inBurn then
               (let propUsed = fmul (fdiv burnElapsed burnTime_v) (propellantMass motor_v)
                in fsub (fadd (fadd dryMass_v (motor_dryMass motor_v)) (propellantMass motor_v))
                        propUsed)
             else if t \<ge> fadd motorStartTime_v burnTime_v \<and> phase state = Burn then
               fadd dryMass_v (motor_dryMass motor_v)
             else mass state);
          thrustRaw = (if inBurn then thrustAt motor_v burnElapsed else 0);
          thrust_v = fmul thrustRaw (if inBurn then thrustAltitudeFactor_d lib h else 1);
          rho = density_d lib h;
          mach_v = machNumber_d lib \<bar>v\<bar> h;
          cd_v = dragCoefficient_d lib mach_v;
          dragMag = dragForceMagnitude_d rho \<bar>v\<bar> cd_v referenceArea_v;
          drag_v = (if v \<ge> 0 then - dragMag else dragMag);
          gravity = fmul (- G_d) mass_v;
          netForce = fadd (fadd thrust_v drag_v) gravity;
          acceleration_v = (if mass_v > 0 then fdiv netForce mass_v else 0);
          newVelocity = fadd v (fmul acceleration_v dt);
          newAltitude =
            max 0 (fadd (fadd h (fmul v dt)) (fmul (fmul (fmul 0.5 acceleration_v) dt) dt));
          phase0 = phase state;
          apogee0 = apogee state;
          phase1 =
            (if phase state = Pre
                \<and> (case motorStartTime params of Some x \<Rightarrow> x | None \<Rightarrow> 0) \<le> t
             then (if inBurn then Burn else Coast) else phase0);
          phase2 = (if phase state = Burn \<and> \<not> inBurn then Coast else phase1);
          apogee1 = (if phase2 = Coast then max apogee0 h else apogee0);
          phase3 = (if phase2 = Coast \<and> v < 0 then Apogee else phase2);
          phase4 = (if phase state = Apogee then Recovery else phase3);
          pushed = trail state
                   @ [\<lparr>tp_altitude = newAltitude, tp_velocity = newVelocity,
                       tp_mach = mach_v, tp_time = t\<rparr>];
          maxTrail = (case maxTrailPoints params of Some x \<Rightarrow> x | None \<Rightarrow> MAX_TRAIL);
          trail_v = (if real (length pushed) > maxTrail then tl pushed else pushed)
      in \<lparr>time = t, altitude = newAltitude, velocity = newVelocity,
          acceleration = acceleration_v, mass = mass_v, mach = mach_v, cd = cd_v,
          airDensity = rho, thrust = thrust_v, drag = drag_v, phase = phase4,
          apogee = apogee1, trail = trail_v\<rparr>)"

definition createSimulationState_d :: "MathLib \<Rightarrow> SimulationParams \<Rightarrow> SimulationState" where
  "createSimulationState_d lib params = initialState_d lib params"

section \<open>lib/designToSim.ts in doubles\<close>

definition referenceArea_d :: "RocketGeometry \<Rightarrow> real" where
  "referenceArea_d g = (let r = fdiv (bodyDiameter g) 2 in fmul (fmul PI_d r) r)"

definition getSimParams_d :: "MathLib \<Rightarrow> RocketDesign \<Rightarrow> SimulationParams option" where
  "getSimParams_d lib design =
     (case getMotor_d (motorId design) of
        None \<Rightarrow> None
      | Some motor_v \<Rightarrow>
          (let g = geometry design;
               noseMass_v =
                 (case noseMass design of
                    Some m \<Rightarrow> m
                  | None \<Rightarrow>
                      fmul (fmul (fmul (fmul (fdiv 1 3) PI_d) (m_pow2 lib (fdiv (bodyDiameter g) 2)))
                                 (noseLength g))
                           500);
               dryMass_v =
                 fadd (fadd (fadd (fadd noseMass_v (bodyMass design)) (finMass design))
                            (payloadMass design))
                      (motor_dryMass motor_v)
           in Some \<lparr>p_referenceArea = referenceArea_d g, dryMass = dryMass_v, motor = motor_v,
                    motorStartTime = Some 0, deployAtApogee = Some True,
                    maxTrailPoints = Some 500\<rparr>))"

section \<open>Trajectories in doubles\<close>

text \<open>
  \<open>trajectory_d lib params dt n\<close> is the state after \<open>n\<close> steps in doubles.
  \<open>burn_end_d\<close> is the sum \<open>motorStartTime + burnTime\<close> as \<open>stepSimulation\<close> computes
  it, \<open>in_burn_d\<close> its local \<open>inBurn\<close> and \<open>burn_mass_d\<close> the mass it assigns within
  the burn window, as functions of the parameters and the new time.
  \<open>burn_sampled_d lib p dt n\<close> says that the time of one of the first \<open>n\<close> output states
  lies within the burn window.  \<open>mass_inv_d\<close> is the invariant that ties the mass and the
  phase of the \<open>n\<close>-th state of a trajectory to its time.
\<close>

primrec trajectory_d :: "MathLib \<Rightarrow> SimulationParams \<Rightarrow> real \<Rightarrow> nat \<Rightarrow> SimulationState" where
  "trajectory_d lib params dt 0 = createSimulationState_d lib params"
| "trajectory_d lib params dt (Suc n) =
     stepSimulation_d lib (trajectory_d lib params dt n) params dt"

definition burn_end_d :: "SimulationParams \<Rightarrow> real" where
  "burn_end_d p = fadd (start_of p) (burnTime (motor p))"

definition in_burn_d :: "SimulationParams \<Rightarrow> real \<Rightarrow> bool" where
  "in_burn_d p t = (start_of p \<le> t \<and> t < burn_end_d p)"

definition burn_mass_d :: "SimulationParams \<Rightarrow> real \<Rightarrow> real" where
  "burn_mass_d p t =
     fsub (fadd (fadd (dryMass p) (motor_dryMass (motor p))) (propellantMass (motor p)))
          (fmul (fdiv (fsub t (start_of p)) (burnTime (motor p))) (propellantMass (motor p)))"

primrec burn_sampled_d :: "MathLib \<Rightarrow> SimulationParams \<Rightarrow> real \<Rightarrow> nat \<Rightarrow> bool" where
  "burn_sampled_d lib p dt 0 = False"
| "burn_sampled_d lib p dt (Suc n) =
     (burn_sampled_d lib p dt n \<or> in_burn_d p (time (trajectory_d lib p dt (Suc n))))"

definition mass_inv_d :: "MathLib \<Rightarrow> SimulationParams \<Rightarrow> real \<Rightarrow> nat \<Rightarrow> bool" where
  "mass_inv_d lib p dt n =
     (let s = trajectory_d lib p dt n in
      (time s < start_of p \<longrightarrow> phase s = Pre)
      \<and> (\<not> burn_sampled_d lib p dt n \<longrightarrow>
            mass s = mass (createSimulationState_d lib p) \<and> phase s \<noteq> Burn
            \<and> (in_burn_d p (time s) \<longrightarrow> phase s = Pre))
      \<and> (burn_sampled_d lib p dt n \<longrightarrow> start_of p \<le> time s)
      \<and> (burn_sampled_d lib p dt n \<and> in_burn_d p (time s) \<longrightarrow> phase s = Burn)
      \<and> (burn_sampled_d lib p dt n \<and> burn_end_d p \<le> time s \<longrightarrow>
            mass s = fadd (dryMass p) (motor_dryMass (motor p))))"

text \<open>
  The example design, its motor and its parameters with every literal as a double, and the
  parameters with the ignition delayed to 1 s.
\<close>

definition design_c6_d :: RocketDesign where
  "design_c6_d =
     \<lparr>geometry = \<lparr>noseLength = rd 0.1, noseShape = Cone, bodyDiameter = rd 0.04,
                   bodyLength = rd 0.4, finRootLeadingEdge = rd 0.4, finRootChord = rd 0.08,
                   finTipChord = rd 0.04, finSemispan = rd 0.05, finSweep = rd 0.03,
                   numFins = 3\<rparr>,
      bodyMass = rd 0.05, finMass = rd 0.01, noseMass = Some (rd 0.02), payloadMass = rd 0.02,
      payloadPosition = rd 0.2, motorId = ''estes-c6'', motorPosition = rd 0.45\<rparr>"

definition motor_c6_d :: MotorSpec where
  "motor_c6_d =
     \<lparr>motor_id = ''estes-c6'', motor_name = ''Estes C6'', totalImpulse = 10,
      burnTime = rd 1.6, propellantMass = rd 0.024, motor_dryMass = rd 0.012,
      thrustAt = trapezoidalThrust_d 9 (rd 1.6) (rd 0.1) (rd 0.2)\<rparr>"

definition params_c6_d :: SimulationParams where
  "params_c6_d =
     \<lparr>p_referenceArea = referenceArea_d (geometry design_c6_d), dryMass = rd 0.112,
      motor = motor_c6_d, motorStartTime = Some 0, deployAtApogee = Some True,
      maxTrailPoints = Some 500\<rparr>"

definition params_delayed_d :: SimulationParams where
  "params_delayed_d = params_c6_d\<lparr>motorStartTime := Some 1\<rparr>"

text \<open>
  The example parameters with the ignition at 0.1 s, and the example rocket with a body of
  0.17 kg on the Estes A8 motor with its parameters.
\<close>

definition params_edge_d :: SimulationParams where
  "params_edge_d = params_c6_d\<lparr>motorStartTime := Some (rd 0.1)\<rparr>"

definition design_a8_d :: RocketDesign where
  "design_a8_d = design_c6_d\<lparr>bodyMass := rd 0.17, motorId := ''estes-a8''\<rparr>"

definition motor_a8_d :: MotorSpec where
  "motor_a8_d =
     \<lparr>motor_id = ''estes-a8'', motor_name = ''Estes A8'', totalImpulse = rd 2.5,
      burnTime = rd 0.5, propellantMass = rd 0.006, motor_dryMass = rd 0.012,
      thrustAt = trapezoidalThrust_d (rd 5.5) (rd 0.5) (rd 0.1) (rd 0.2)\<rparr>"

definition params_a8_d :: SimulationParams where
  "params_a8_d =
     \<lparr>p_referenceArea = referenceArea_d (geometry design_a8_d), dryMass = rd 0.232,
      motor = motor_a8_d, motorStartTime = Some 0, deployAtApogee = Some True,
      maxTrailPoints = Some 500\<rparr>"

section \<open>One step, field by field\<close>

lemma step_time: "time (stepSimulation s p dt) = time s + dt"
  by (simp only: stepSimulation_def Let_def SimulationState.select_convs)

lemma step_mass:
  "mass (stepSimulation s p dt) =
     (if in_burn p (time s + dt)
      then dryMass p + motor_dryMass (motor p) + propellantMass (motor p)
           - ((time s + dt - start_of p) / burnTime (motor p)) * propellantMass (motor p)
      else if start_of p + burnTime (motor p) \<le> time s + dt \<and> phase s = Burn
      then dryMass p + motor_dryMass (motor p)
      else mass s)"
  by (simp only: stepSimulation_def Let_def SimulationState.select_convs in_burn_def start_of_def)
     simp

lemma step_phase:
  "phase (stepSimulation s p dt) =
     (case phase s of
        Pre \<Rightarrow> if start_of p \<le> time s + dt
               then (if in_burn p (time s + dt) then Burn
                     else if velocity s < 0 then Apogee else Coast)
               else Pre
      | Burn \<Rightarrow> if in_burn p (time s + dt) then Burn
               else if velocity s < 0 then Apogee else Coast
      | Coast \<Rightarrow> if velocity s < 0 then Apogee else Coast
      | Apogee \<Rightarrow> Recovery
      | Recovery \<Rightarrow> Recovery)"
  by (simp only: stepSimulation_def Let_def SimulationState.select_convs in_burn_def start_of_def)
     (cases "phase s"; simp)

lemma step_velocity:
  "velocity (stepSimulation s p dt) = velocity s + acceleration (stepSimulation s p dt) * dt"
  by (simp only: stepSimulation_def Let_def SimulationState.select_convs)

lemma step_altitude:
  "altitude (stepSimulation s p dt) =
     max 0 (altitude s + velocity s * dt + 0.5 * acceleration (stepSimulation s p dt) * dt * dt)"
  by (simp only: stepSimulation_def Let_def SimulationState.select_convs)

lemma step_trail:
  "trail (stepSimulation s p dt) =
     (let pushed = trail s @ [\<lparr>tp_altitude = altitude (stepSimulation s p dt),
                               tp_velocity = velocity (stepSimulation s p dt),
                               tp_mach = mach (stepSimulation s p dt),
                               tp_time = time s + dt\<rparr>]
      in if real (length pushed) > trail_cap p then tl pushed else pushed)"
  by (simp only: stepSimulation_def Let_def SimulationState.select_convs trail_cap_def)

lemma trajectory_time: "time (trajectory p dt n) = real n * dt"
  by (induction n)
     (simp_all add: createSimulationState_def initialState_def Let_def step_time algebra_simps)

section \<open>The flight phase\<close>

lemma phase_rank_step: "phase_rank (phase s) \<le> phase_rank (phase (stepSimulation s p dt))"
  by (cases "phase s") (simp_all add: step_phase)

lemma phase_rank_trajectory:
  "phase_rank (phase (trajectory p dt i)) \<le> phase_rank (phase (trajectory p dt (i + k)))"
proof (induction k)
  case 0
  show ?case by simp
next
  case (Suc k)
  have "phase_rank (phase (trajectory p dt (i + k)))
          \<le> phase_rank (phase (trajectory p dt (Suc (i + k))))"
    by (simp add: phase_rank_step)
  with Suc show ?case by simp
qed

text \<open>
  Claim C3.  One step never moves the phase backwards in the order pre, burn, coast,
  apogee, recovery, whatever the state, the parameters and the timestep are; a state in
  phase apogee steps to recovery, and a state in recovery stays there.  Hence along the
  trajectory from the initial state the phase of a later sample is never earlier than the
  phase of a sooner one.
\<close>

theorem phase_never_regresses:
  "phase_rank (phase s) \<le> phase_rank (phase (stepSimulation s p dt))
   \<and> (phase s = Apogee \<longrightarrow> phase (stepSimulation s p dt) = Recovery)
   \<and> (phase s = Recovery \<longrightarrow> phase (stepSimulation s p dt) = Recovery)
   \<and> (i \<le> j \<longrightarrow>
        phase_rank (phase (trajectory p dt i)) \<le> phase_rank (phase (trajectory p dt j)))"
proof -
  have "phase_rank (phase (trajectory p dt i)) \<le> phase_rank (phase (trajectory p dt j))"
    if "i \<le> j"
    using phase_rank_trajectory [of p dt i "j - i"] that by simp
  moreover have "phase (stepSimulation s p dt) = Recovery" if "phase s = Apogee"
    using that by (simp add: step_phase)
  moreover have "phase (stepSimulation s p dt) = Recovery" if "phase s = Recovery"
    using that by (simp add: step_phase)
  ultimately show ?thesis
    using phase_rank_step [of s p dt] by blast
qed

theorem phase_never_regresses_witness:
  "phase (state_in Apogee) = Apogee
   \<and> phase (stepSimulation (state_in Apogee) params_c6 DT) = Recovery
   \<and> phase (state_in Recovery) = Recovery
   \<and> phase (stepSimulation (state_in Recovery) params_c6 DT) = Recovery
   \<and> (0::nat) \<le> 1
   \<and> phase_rank (phase (trajectory params_c6 DT 0))
       \<le> phase_rank (phase (trajectory params_c6 DT 1))"
  using phase_never_regresses [of "state_in Apogee" params_c6 DT 0 1]
        phase_never_regresses [of "state_in Recovery" params_c6 DT 0 1]
  by (simp add: state_in_def)

section \<open>The kinematic update\<close>

lemma altitude_trajectory_nonneg: "0 \<le> altitude (trajectory p dt n)"
  by (cases n) (simp_all add: createSimulationState_def initialState_def Let_def step_altitude)

text \<open>
  Claim C5.  For every state, parameters and timestep, the new velocity is the old velocity
  plus the step's acceleration times the timestep, and the new altitude is the old altitude
  plus velocity times timestep plus half the acceleration times the squared timestep,
  floored at 0.  So every output altitude is at least 0, the initial altitude is 0, and
  no sample of a trajectory is below ground.
\<close>

theorem kinematic_update:
  "velocity (stepSimulation s p dt) = velocity s + acceleration (stepSimulation s p dt) * dt
   \<and> altitude (stepSimulation s p dt) =
       max 0 (altitude s + velocity s * dt
              + 0.5 * acceleration (stepSimulation s p dt) * dt\<^sup>2)
   \<and> 0 \<le> altitude (stepSimulation s p dt)
   \<and> altitude (createSimulationState p) = 0
   \<and> 0 \<le> altitude (trajectory p dt n)"
proof -
  have "altitude (stepSimulation s p dt) =
       max 0 (altitude s + velocity s * dt
              + 0.5 * acceleration (stepSimulation s p dt) * dt\<^sup>2)"
    using step_altitude [of s p dt] by (simp add: power2_eq_square)
  moreover have "0 \<le> altitude (stepSimulation s p dt)"
    by (subst step_altitude) simp
  moreover have "altitude (createSimulationState p) = 0"
    by (simp add: createSimulationState_def initialState_def Let_def)
  ultimately show ?thesis
    using step_velocity [of s p dt] altitude_trajectory_nonneg [of p dt n] by blast
qed

section \<open>The drag coefficient\<close>

lemma arctan_le_self:
  assumes "0 \<le> (x::real)"
  shows "arctan x \<le> x"
proof -
  have "\<exists>y. DERIV (\<lambda>u. u - arctan u) z :> y \<and> 0 \<le> y" for z :: real
  proof -
    have "DERIV (\<lambda>u. u - arctan u) z :> 1 - inverse (1 + z\<^sup>2)"
      by (auto intro!: derivative_eq_intros)
    moreover have "inverse (1 + z\<^sup>2) \<le> 1"
      by (simp add: inverse_le_1_iff)
    ultimately show ?thesis by force
  qed
  then have "0 - arctan 0 \<le> x - arctan x"
    using assms by (intro DERIV_nonneg_imp_nondecreasing [of 0 x "\<lambda>u. u - arctan u"]) auto
  then show ?thesis by simp
qed

lemma pi_le_16_5: "pi \<le> 16 / 5"
proof -
  have "pi / 4 = 4 * arctan (1 / 5) - arctan (1 / 239)" by (rule machin)
  moreover have "arctan (1 / 5) \<le> 1 / 5" by (rule arctan_le_self) simp
  moreover have "0 \<le> arctan (1 / 239)" by simp
  ultimately show ?thesis by linarith
qed

lemma sin_pi_frac_nonneg:
  assumes "0 \<le> t" "t \<le> 1"
  shows "0 \<le> sin (pi * t)"
proof (rule sin_ge_zero)
  show "0 \<le> pi * t" using assms by simp
  show "pi * t \<le> pi" using assms by (simp add: mult_le_cancel_left1)
qed

lemma bump_le:
  assumes "0 \<le> t" "t \<le> 1"
  shows "13 / 20 * t + 3 / 10 * sin (pi * t) \<le> 3 / 4"
proof (cases "t \<le> 9 / 13")
  case True
  have "sin (pi * t) \<le> 1" by simp
  with True show ?thesis by linarith
next
  case False
  have "sin (pi * t) = sin (pi - pi * t)"
    by (simp only: sin_pi_minus)
  also have "\<dots> = sin (pi * (1 - t))"
    by (simp add: algebra_simps)
  also have "\<dots> \<le> pi * (1 - t)"
    using assms by (intro sin_x_le_x) simp
  also have "\<dots> \<le> (16 / 5) * (1 - t)"
    using assms pi_le_16_5 by (intro mult_right_mono) auto
  finally have "sin (pi * t) \<le> 16 / 5 - 16 / 5 * t"
    by (simp add: algebra_simps)
  moreover have "9 / 13 < t" using False by simp
  ultimately show ?thesis by linarith
qed

lemma cd_transonic_bounds:
  assumes "0.8 \<le> m" "m \<le> 1.2"
  shows "0.35 \<le> cd_transonic m" "cd_transonic m \<le> 1.1"
proof -
  define t where "t = (m - 0.8) / 0.4"
  have t: "0 \<le> t" "t \<le> 1" using assms by (simp_all add: t_def)
  have eq: "cd_transonic m = 7 / 20 + (13 / 20 * t + 3 / 10 * sin (pi * t))"
    by (simp add: cd_transonic_def Let_def t_def)
  have "0 \<le> 13 / 20 * t + 3 / 10 * sin (pi * t)"
    using t sin_pi_frac_nonneg [OF t] by simp
  then show "0.35 \<le> cd_transonic m" unfolding eq by simp
  show "cd_transonic m \<le> 1.1" unfolding eq using bump_le [OF t] by simp
qed

lemma cd_supersonic_bounds:
  assumes "1.2 < m"
  shows "0.56 \<le> cd_supersonic m" "cd_supersonic m < 0.6"
  using assms by (simp_all add: cd_supersonic_def min_def)

text \<open>
  Claim C10.  For every Mach number the drag coefficient lies between 0.35 and 1.1, so it
  is never zero, and it is exactly 0.35 below Mach 0.8, negative arguments and 0 included.
\<close>

theorem dragCoefficient_range:
  "0.35 \<le> dragCoefficient m \<and> dragCoefficient m \<le> 1.1 \<and> dragCoefficient m \<noteq> 0
   \<and> (m < 0.8 \<longrightarrow> dragCoefficient m = 0.35)"
proof -
  have lo: "0.35 \<le> dragCoefficient m"
    using cd_transonic_bounds(1) [of m] cd_supersonic_bounds(1) [of m]
    by (auto simp: dragCoefficient_def)
  have hi: "dragCoefficient m \<le> 1.1"
    using cd_transonic_bounds(2) [of m] cd_supersonic_bounds(2) [of m]
    by (auto simp: dragCoefficient_def)
  have "dragCoefficient m \<noteq> 0" using lo by auto
  moreover have "dragCoefficient m = 0.35" if "m < 0.8"
    using that by (simp add: dragCoefficient_def)
  ultimately show ?thesis using lo hi by blast
qed

theorem dragCoefficient_range_witness:
  "(0::real) < 0.8 \<and> dragCoefficient 0 = 0.35 \<and> dragCoefficient (- 1) = 0.35
   \<and> dragCoefficient 0 \<noteq> 0"
  using dragCoefficient_range [of 0] dragCoefficient_range [of "- 1"] by simp

text \<open>
  Claim C2, as stated, fails at the upper band edge: at Mach 1.2 the transonic branch and
  the supersonic branch give different values.
\<close>

theorem transonic_edge_mismatch:
  "cd_transonic 1.2 \<noteq> cd_supersonic 1.2"
  by (simp add: cd_transonic_def cd_supersonic_def Let_def)

text \<open>
  Claim C2, amended.  The drag coefficient is continuous at the lower band edge: the
  transonic branch at Mach 0.8 is the subsonic value 0.35.  At the upper edge it is not:
  the transonic branch, which \<open>dragCoefficient\<close> uses at Mach 1.2, gives 1.0 there,
  the supersonic branch gives 0.6 at Mach 1.2, and above Mach 1.2 the coefficient stays
  below 0.6.
\<close>

theorem transonic_edges:
  "cd_transonic 0.8 = 0.35 \<and> dragCoefficient 0.8 = 0.35
   \<and> cd_transonic 1.2 = 1 \<and> dragCoefficient 1.2 = 1
   \<and> cd_supersonic 1.2 = 0.6
   \<and> (1.2 < m \<longrightarrow> dragCoefficient m < 0.6)"
proof -
  have "dragCoefficient m < 0.6" if "1.2 < m"
    using that cd_supersonic_bounds(2) [of m] by (simp add: dragCoefficient_def)
  moreover have "cd_transonic 0.8 = 0.35" "cd_transonic 1.2 = 1"
    by (simp_all add: cd_transonic_def Let_def)
  moreover have "cd_supersonic 1.2 = 0.6"
    by (simp add: cd_supersonic_def)
  ultimately show ?thesis
    by (simp add: dragCoefficient_def)
qed

theorem transonic_edges_witness:
  "(1.2::real) < 2 \<and> dragCoefficient 2 < 0.6 \<and> dragCoefficient 1.2 = 1"
  using transonic_edges [of 2] by simp

section \<open>The trail\<close>

lemma trail_length_step:
  assumes "real (length (trail s)) \<le> trail_cap p"
  shows "real (length (trail (stepSimulation s p dt))) \<le> trail_cap p"
  using assms by (simp add: step_trail Let_def)

lemma trail_length_trajectory:
  assumes "0 \<le> trail_cap p"
  shows "real (length (trail (trajectory p dt n))) \<le> trail_cap p"
proof (induction n)
  case 0
  show ?case using assms by (simp add: createSimulationState_def initialState_def Let_def)
next
  case (Suc n)
  then show ?case by (simp add: trail_length_step)
qed

lemma sorted_wrt_snoc_time:
  assumes "sorted_wrt (<) (map tp_time xs)" "list_all (\<lambda>x. tp_time x \<le> t) xs" "t < tp_time y"
  shows "sorted_wrt (<) (map tp_time (xs @ [y]))"
  using assms by (auto simp: sorted_wrt_append list_all_iff)

lemma sorted_wrt_tl: "sorted_wrt P xs \<Longrightarrow> sorted_wrt P (tl xs)"
  by (cases xs) simp_all

lemma list_all_tl: "list_all P xs \<Longrightarrow> list_all P (tl xs)"
  by (cases xs) simp_all

lemma trail_ordered_step:
  assumes "trail_ordered s" "0 < dt"
  shows "trail_ordered (stepSimulation s p dt)"
proof -
  define y where "y = \<lparr>tp_altitude = altitude (stepSimulation s p dt),
                        tp_velocity = velocity (stepSimulation s p dt),
                        tp_mach = mach (stepSimulation s p dt),
                        tp_time = time s + dt\<rparr>"
  have srt: "sorted_wrt (<) (map tp_time (trail s))"
    and bnd: "list_all (\<lambda>x. tp_time x \<le> time s) (trail s)"
    using assms(1) by (simp_all add: trail_ordered_def)
  have 1: "sorted_wrt (<) (map tp_time (trail s @ [y]))"
    using srt bnd assms(2) by (intro sorted_wrt_snoc_time [where t = "time s"]) (simp_all add: y_def)
  have 2: "list_all (\<lambda>x. tp_time x \<le> time s + dt) (trail s @ [y])"
    using bnd assms(2) by (auto simp: list_all_iff y_def)
  have tr: "trail (stepSimulation s p dt) = trail s @ [y]
            \<or> trail (stepSimulation s p dt) = tl (trail s @ [y])"
    by (simp add: step_trail Let_def y_def)
  have "sorted_wrt (<) (map tp_time (trail (stepSimulation s p dt)))"
    using tr 1 sorted_wrt_tl [OF 1] by (auto simp: map_tl)
  moreover have "list_all (\<lambda>x. tp_time x \<le> time s + dt) (trail (stepSimulation s p dt))"
    using tr 2 list_all_tl [OF 2] by auto
  ultimately show ?thesis
    by (simp add: trail_ordered_def step_time)
qed

lemma trail_ordered_trajectory:
  assumes "0 < dt"
  shows "trail_ordered (trajectory p dt n)"
proof (induction n)
  case 0
  show ?case by (simp add: trail_ordered_def createSimulationState_def initialState_def Let_def)
next
  case (Suc n)
  then show ?case using assms by (simp add: trail_ordered_step)
qed

text \<open>
  Claim C8.  Every step appends one sample (new altitude, new velocity, Mach number, new
  time) at the end of the trail and then drops the first entry if the length exceeds the
  capacity \<open>maxTrailPoints\<close> (500 when absent).  So a trail within the capacity stays
  within it, and a trail whose sample times increase towards the end keeps that order under
  a positive timestep; both hold along every trajectory from the initial state.
\<close>

theorem trail_bounded_fifo:
  "trail (stepSimulation s p dt) =
     (let pushed = trail s @ [\<lparr>tp_altitude = altitude (stepSimulation s p dt),
                               tp_velocity = velocity (stepSimulation s p dt),
                               tp_mach = mach (stepSimulation s p dt),
                               tp_time = time s + dt\<rparr>]
      in if real (length pushed) > trail_cap p then tl pushed else pushed)
   \<and> (real (length (trail s)) \<le> trail_cap p
        \<longrightarrow> real (length (trail (stepSimulation s p dt))) \<le> trail_cap p)
   \<and> (trail_ordered s \<and> 0 < dt \<longrightarrow> trail_ordered (stepSimulation s p dt))
   \<and> (0 \<le> trail_cap p \<longrightarrow> real (length (trail (trajectory p dt n))) \<le> trail_cap p)
   \<and> (0 < dt \<longrightarrow> trail_ordered (trajectory p dt n))
   \<and> (maxTrailPoints p = None \<longrightarrow> trail_cap p = 500)"
  using step_trail [of s p dt] trail_length_step [of s p dt] trail_ordered_step [of s dt p]
    trail_length_trajectory [of p dt n] trail_ordered_trajectory [of dt p n]
  by (simp add: trail_cap_def MAX_TRAIL_def)

theorem trail_bounded_fifo_witness:
  "real (length (trail state_two)) \<le> trail_cap params_cap2
   \<and> trail_ordered state_two \<and> (0::real) < DT \<and> 0 \<le> trail_cap params_cap2
   \<and> real (length (trail (stepSimulation state_two params_cap2 DT))) \<le> trail_cap params_cap2
   \<and> map tp_time (trail (stepSimulation state_two params_cap2 DT)) = [5, 5 + DT]
   \<and> trail_ordered (stepSimulation state_two params_cap2 DT)
   \<and> real (length (trail (trajectory params_cap2 DT 3))) \<le> trail_cap params_cap2
   \<and> trail_ordered (trajectory params_cap2 DT 3)
   \<and> maxTrailPoints (params_c6\<lparr>maxTrailPoints := None\<rparr>) = None
   \<and> trail_cap (params_c6\<lparr>maxTrailPoints := None\<rparr>) = 500"
proof -
  note T = trail_bounded_fifo [of state_two params_cap2 DT 3]
  note T' = trail_bounded_fifo [of state_two "params_c6\<lparr>maxTrailPoints := None\<rparr>" DT 3]
  have cap: "trail_cap params_cap2 = 2"
    by (simp add: params_cap2_def trail_cap_def)
  have tr: "trail state_two =
              [\<lparr>tp_altitude = 99, tp_velocity = 1, tp_mach = 0, tp_time = 4\<rparr>,
               \<lparr>tp_altitude = 100, tp_velocity = 0, tp_mach = 0, tp_time = 5\<rparr>]"
    and tm: "time state_two = 5"
    by (simp_all add: state_two_def state_in_def)
  have ord: "trail_ordered state_two"
    by (simp add: trail_ordered_def tr tm)
  have dt: "(0::real) < DT" by (simp add: DT_def)
  have none: "maxTrailPoints (params_c6\<lparr>maxTrailPoints := None\<rparr>) = None" by simp
  from T have "trail (stepSimulation state_two params_cap2 DT) =
     (let pushed = trail state_two @ [\<lparr>tp_altitude = altitude (stepSimulation state_two params_cap2 DT),
                               tp_velocity = velocity (stepSimulation state_two params_cap2 DT),
                               tp_mach = mach (stepSimulation state_two params_cap2 DT),
                               tp_time = time state_two + DT\<rparr>]
      in if real (length pushed) > trail_cap params_cap2 then tl pushed else pushed)"
    by (rule conjunct1)
  then have times: "map tp_time (trail (stepSimulation state_two params_cap2 DT)) = [5, 5 + DT]"
    by (simp add: cap tr tm Let_def)
  show ?thesis
    using T T' cap tr ord dt none times by simp
qed

section \<open>From a design to the initial state\<close>

lemma getMotor_c6: "getMotor ''estes-c6'' = Some motor_c6"
  by (simp add: getMotor_def MOTORS_def motor_c6_def)

lemma getMotor_unknown: "getMotor ''estes-z99'' = None"
  by (simp add: getMotor_def MOTORS_def)

lemma getSimParams_c6: "getSimParams design_c6 = Some params_c6"
  by (simp add: getSimParams_def design_c6_def getMotor_c6 Let_def params_c6_def motor_c6_def)

lemma getMotor_Some_id: "getMotor i = Some m \<Longrightarrow> m \<in> set MOTORS \<and> motor_id m = i"
  unfolding getMotor_def by (auto simp: find_Some_iff)

text \<open>
  Claim C1, as stated, fails for the example design: the initial drag coefficient is not
  zero, and the initial mass is not the mass of the claim, which counts the motor casing
  once.
\<close>

theorem initial_state_claimed_false:
  "getSimParams design_c6 = Some params_c6
   \<and> cd (createSimulationState params_c6) \<noteq> 0
   \<and> mass (createSimulationState params_c6) \<noteq> spec_wet_mass design_c6 motor_c6"
proof -
  have "cd (createSimulationState params_c6) \<noteq> 0"
    by (simp add: createSimulationState_def initialState_def Let_def dragCoefficient_def)
  moreover have "mass (createSimulationState params_c6) \<noteq> spec_wet_mass design_c6 motor_c6"
    by (simp add: createSimulationState_def initialState_def Let_def params_c6_def
          motor_c6_def spec_wet_mass_def design_c6_def)
  ultimately show ?thesis
    using getSimParams_c6 by simp
qed

text \<open>
  Claim C1, amended.  When the motor of a design resolves, the parameters carry that motor
  and the initial state has phase pre, time 0, an empty trail, zero thrust and drag, the
  drag coefficient of Mach 0, which is 0.35, and as mass the dry mass of the parameters
  plus the motor's casing mass plus its propellant mass.
\<close>

theorem initial_state:
  assumes "getSimParams design = Some params"
  shows "getMotor (motorId design) = Some (motor params)
   \<and> phase (createSimulationState params) = Pre
   \<and> time (createSimulationState params) = 0
   \<and> trail (createSimulationState params) = []
   \<and> thrust (createSimulationState params) = 0
   \<and> drag (createSimulationState params) = 0
   \<and> cd (createSimulationState params) = dragCoefficient 0
   \<and> cd (createSimulationState params) = 0.35
   \<and> mass (createSimulationState params)
       = dryMass params + motor_dryMass (motor params) + propellantMass (motor params)"
  using assms
  by (auto simp: getSimParams_def createSimulationState_def initialState_def Let_def
        dragCoefficient_def split: option.splits)

theorem initial_state_witness:
  "getSimParams design_c6 = Some params_c6
   \<and> phase (createSimulationState params_c6) = Pre
   \<and> cd (createSimulationState params_c6) = 0.35
   \<and> mass (createSimulationState params_c6) = 0.148"
  using initial_state [of design_c6 params_c6] getSimParams_c6
  by (simp add: params_c6_def motor_c6_def)

text \<open>
  What the initial mass is in terms of the design: \<open>getSimParams\<close> already puts the
  casing into the dry mass and \<open>initialState\<close> adds it again.
\<close>

lemma initial_mass_of_design:
  assumes "getSimParams design = Some params"
  shows "mass (createSimulationState params)
           = spec_wet_mass design (motor params) + motor_dryMass (motor params)"
  using assms
  by (auto simp: getSimParams_def createSimulationState_def initialState_def Let_def
        spec_wet_mass_def power2_eq_square split: option.splits)

section \<open>A motor that is not in the catalog\<close>

text \<open>
  Claim C6.  When the motor identifier of a design is not in the catalog,
  \<open>getSimParams\<close> returns nothing and the run route answers with the error
  ``Invalid motor or design'' (status 400); the analysis still returns all four results,
  the centre of gravity being computed with the motor mass 0.03.
\<close>

theorem unknown_motor:
  assumes "getMotor (motorId design) = None"
  shows "getSimParams design = None
   \<and> createInitialSimState design = None
   \<and> POST_run (Some design) = ErrorResponse ''Invalid motor or design'' 400
   \<and> POST_analyze (Some design) = AnalysisResponse (getPreLaunchResults design)
   \<and> res_cp (getPreLaunchResults design) = centerOfPressure (geometry design)
   \<and> res_cg (getPreLaunchResults design) =
       centerOfGravity
         \<lparr>cg_noseLength = noseLength (geometry design),
          cg_bodyLength = bodyLength (geometry design),
          cg_bodyDiameter = bodyDiameter (geometry design),
          cg_finRootLeadingEdge = finRootLeadingEdge (geometry design),
          cg_finRootChord = finRootChord (geometry design),
          cg_finTipChord = finTipChord (geometry design),
          cg_noseMass = noseMass design, cg_bodyMass = bodyMass design,
          cg_finMass = finMass design, cg_payloadMass = payloadMass design,
          cg_payloadPosition = payloadPosition design,
          motorMass = 0.03,
          cg_motorPosition = motorPosition design\<rparr>
   \<and> res_stabilityCalibers (getPreLaunchResults design) =
       (res_cp (getPreLaunchResults design) - Fin (res_cg (getPreLaunchResults design)))
         / Fin (bodyDiameter (geometry design))
   \<and> res_isStable (getPreLaunchResults design) =
       (Fin 1 \<le> res_stabilityCalibers (getPreLaunchResults design))"
  using assms
  by (simp add: getSimParams_def createInitialSimState_def POST_run_def POST_analyze_def
        getPreLaunchResults_def Let_def)

theorem unknown_motor_witness:
  "getMotor (motorId design_unknown) = None
   \<and> getSimParams design_unknown = None
   \<and> POST_run (Some design_unknown) = ErrorResponse ''Invalid motor or design'' 400
   \<and> res_cg (getPreLaunchResults design_unknown) = 383 / 1300"
proof -
  have none: "getMotor (motorId design_unknown) = None"
    by (simp add: design_unknown_def getMotor_unknown)
  note U = unknown_motor [OF none]
  have "res_cg (getPreLaunchResults design_unknown) = 383 / 1300"
    unfolding U [THEN conjunct2, THEN conjunct2, THEN conjunct2, THEN conjunct2,
                 THEN conjunct2, THEN conjunct1]
    by (simp add: design_unknown_def design_c6_def centerOfGravity_def buildCGComponents_def
          computeCG_def Let_def)
  then show ?thesis using U none by simp
qed

section \<open>The centre of pressure without fin lift\<close>

lemma finTerms_X_finite:
  assumes "finRootChord g + finTipChord g \<noteq> 0"
  shows "\<exists>x. X (finTerms g) = Fin x"
  using assms by (simp add: finTerms_def Let_def)

lemma finTerms_CN_no_span:
  assumes "finSemispan g = 0" "bodyDiameter g \<noteq> 0" "finRootChord g + finTipChord g \<noteq> 0"
  shows "CN (finTerms g) = Fin 0"
proof -
  define q where "q = 2 * sqrt (finSemispan g * finSemispan g
      + (finSweep g + (finTipChord g - finRootChord g) / 2)
        * (finSweep g + (finTipChord g - finRootChord g) / 2)) / (finRootChord g + finTipChord g)"
  have "0 \<le> sqrt (1 + q * q)" by simp
  then have "1 + sqrt (1 + q * q) \<noteq> 0" by linarith
  moreover have "\<not> 1 + q * q < 0"
    using zero_le_square [of q] by linarith
  ultimately show ?thesis
    using assms by (simp add: finTerms_def Let_def q_def)
qed

lemma cp_nose_only_aux:
  assumes "CN (finTerms g) = Fin 0" "finRootChord g + finTipChord g \<noteq> 0"
  shows "centerOfPressure g =
           Fin (if noseShape g = Cone then (2 / 3) * noseLength g else 0.466 * noseLength g)"
proof -
  obtain x where x: "X (finTerms g) = Fin x"
    using finTerms_X_finite [OF assms(2)] by blast
  show ?thesis
    by (simp add: centerOfPressure_def Let_def noseTerms_def assms(1) x)
qed

text \<open>
  Claim C7, as stated, fails for a rocket without fins (zero root chord, tip chord and
  semispan): the fin normal-force coefficient is 0, since its denominator is infinite, but
  the fin offset divides zero by zero, and the centre of pressure is NaN, not the nose
  offset.
\<close>

theorem cp_no_chord_nan:
  "CN (finTerms geometry_no_fins) = Fin 0
   \<and> noseShape geometry_no_fins = Cone
   \<and> centerOfPressure geometry_no_fins = NaN
   \<and> centerOfPressure geometry_no_fins \<noteq> Fin ((2 / 3) * noseLength geometry_no_fins)"
proof -
  have cn: "CN (finTerms geometry_no_fins) = Fin 0"
    by (simp add: finTerms_def Let_def geometry_no_fins_def design_c6_def)
  have x: "X (finTerms geometry_no_fins) = NaN"
    by (simp add: finTerms_def Let_def geometry_no_fins_def design_c6_def)
  have "centerOfPressure geometry_no_fins = NaN"
    by (simp add: centerOfPressure_def Let_def noseTerms_def cn x)
  then show ?thesis
    using cn by (simp add: geometry_no_fins_def design_c6_def)
qed

text \<open>
  Claim C7, amended.  For every geometry whose fin normal-force coefficient is 0 and whose
  root and tip chord do not add up to 0, the centre of pressure is exactly the nose
  offset: two thirds of the nose length for a cone, 0.466 of it for an ogive.  Zero semispan
  with a non-zero body diameter and a non-zero chord sum is such a geometry.
\<close>

theorem cp_nose_only:
  "(CN (finTerms g) = Fin 0 \<and> finRootChord g + finTipChord g \<noteq> 0 \<longrightarrow>
      centerOfPressure g =
        Fin (if noseShape g = Cone then (2 / 3) * noseLength g else 0.466 * noseLength g))
   \<and> (finSemispan g = 0 \<and> bodyDiameter g \<noteq> 0 \<and> finRootChord g + finTipChord g \<noteq> 0 \<longrightarrow>
        CN (finTerms g) = Fin 0)"
  using cp_nose_only_aux [of g] finTerms_CN_no_span [of g] by blast

theorem cp_nose_only_witness:
  "finSemispan geometry_no_span = 0 \<and> bodyDiameter geometry_no_span \<noteq> 0
   \<and> finRootChord geometry_no_span + finTipChord geometry_no_span \<noteq> 0
   \<and> CN (finTerms geometry_no_span) = Fin 0
   \<and> centerOfPressure geometry_no_span = Fin (1 / 15)
   \<and> centerOfPressure (geometry_no_span\<lparr>noseShape := Ogive\<rparr>) = Fin 0.0466"
proof -
  have h: "finSemispan geometry_no_span = 0" "bodyDiameter geometry_no_span \<noteq> 0"
    "finRootChord geometry_no_span + finTipChord geometry_no_span \<noteq> 0"
    "noseShape geometry_no_span = Cone" "noseLength geometry_no_span = 1 / 10"
    by (simp_all add: geometry_no_span_def design_c6_def)
  show ?thesis
    using cp_nose_only [of geometry_no_span]
          cp_nose_only [of "geometry_no_span\<lparr>noseShape := Ogive\<rparr>"] h
    by simp
qed

section \<open>Rounding to the nearest double\<close>

lemma pow2_powr: "pow2 k = 2 powr (of_int k)"
  by (simp add: pow2_def powr_real_of_int divide_inverse)

lemma pow2_pos [simp]: "0 < pow2 k"
  by (simp add: pow2_powr)

lemma pow2_nonneg [simp]: "0 \<le> pow2 k"
  using pow2_pos [of k] by linarith

lemma pow2_neq0 [simp]: "pow2 k \<noteq> 0"
  using pow2_pos [of k] by linarith

lemma pow2_add: "pow2 (a + b) = pow2 a * pow2 b"
  by (simp add: pow2_powr powr_add)

lemma pow2_mono: "a \<le> b \<Longrightarrow> pow2 a \<le> pow2 b"
  by (simp add: pow2_powr)

lemma pow2_less: "a < b \<Longrightarrow> pow2 a < pow2 b"
  by (simp add: pow2_powr)

lemma pow2_0 [simp]: "pow2 0 = 1"
  by (simp add: pow2_def)

lemma pow2_53: "pow2 53 = of_int (2 ^ 53)" and pow2_52: "pow2 52 = of_int (2 ^ 52)"
  by (simp_all add: pow2_def)

lemma pow2_split: "pow2 a = pow2 (a - 52) * pow2 52"
  using pow2_add [of "a - 52" 52] by simp

lemma pow2_split1: "pow2 (a + 1) = pow2 (a - 52) * pow2 53"
  using pow2_add [of "a - 52" 53] by (simp add: add.commute)

lemma round_even_of_int [simp]: "round_even (of_int k) = k"
  by (simp add: round_even_def)

lemma round_even_cases:
  "round_even y = \<lfloor>y\<rfloor> \<or> round_even y = \<lfloor>y\<rfloor> + 1"
  by (simp add: round_even_def Let_def)

lemma round_even_mono:
  assumes "y \<le> z"
  shows "round_even y \<le> round_even z"
proof -
  have fg: "\<lfloor>y\<rfloor> \<le> \<lfloor>z\<rfloor>" using assms by (rule floor_mono)
  show ?thesis
  proof (cases "\<lfloor>y\<rfloor> = \<lfloor>z\<rfloor>")
    case False
    then have "\<lfloor>y\<rfloor> + 1 \<le> \<lfloor>z\<rfloor>" using fg by simp
    then show ?thesis
      using round_even_cases [of y] round_even_cases [of z] by linarith
  next
    case True
    then have "y - of_int \<lfloor>y\<rfloor> \<le> z - of_int \<lfloor>z\<rfloor>" using assms by simp
    then show ?thesis
      using True by (auto simp: round_even_def Let_def)
  qed
qed

lemma round_even_le: "y \<le> of_int k \<Longrightarrow> round_even y \<le> k"
  using round_even_mono [of y "of_int k"] by simp

lemma round_even_ge: "of_int k \<le> y \<Longrightarrow> k \<le> round_even y"
  using round_even_mono [of "of_int k" y] by simp

lemma round_even_minus: "round_even (- y) = - round_even y"
proof (cases "y = of_int \<lfloor>y\<rfloor>")
  case True
  then obtain k where "y = of_int k" ..
  then have "- y = of_int (- k)" by simp
  then show ?thesis using \<open>y = of_int k\<close> by (simp only: round_even_of_int)
next
  case False
  then have lt: "of_int \<lfloor>y\<rfloor> < y" using of_int_floor_le [of y] by linarith
  have fl: "\<lfloor>- y\<rfloor> = - \<lfloor>y\<rfloor> - 1"
    using lt by (intro floor_unique) (auto, linarith+)
  show ?thesis
    unfolding round_even_def Let_def fl using lt
    by (auto simp: algebra_simps)
qed

lemma round_even_small:
  assumes "\<bar>y\<bar> < 1 / 2"
  shows "round_even y = 0"
proof (cases "0 \<le> y")
  case True
  then have "\<lfloor>y\<rfloor> = 0" using assms by (intro floor_unique) simp_all
  then show ?thesis using assms True by (simp add: round_even_def Let_def)
next
  case False
  then have "\<lfloor>y\<rfloor> = - 1" using assms by (intro floor_unique) simp_all
  then show ?thesis using assms False by (simp add: round_even_def Let_def)
qed

lemma expo_eq:
  assumes "pow2 k \<le> \<bar>x\<bar>" "\<bar>x\<bar> < pow2 (k + 1)" "- 1022 \<le> k"
  shows "expo x = k"
proof -
  have "0 < \<bar>x\<bar>" using assms(1) pow2_pos [of k] by linarith
  then have "\<lfloor>log 2 \<bar>x\<bar>\<rfloor> = k"
    using assms(1,2) by (simp add: floor_log_eq_powr_iff pow2_powr)
  then show ?thesis using assms(3) by (simp add: expo_def)
qed

lemma expo_ge: "- 1022 \<le> expo x"
  by (simp add: expo_def)

lemma expo_minus [simp]: "expo (- x) = expo x"
  by (simp add: expo_def)

lemma less_pow2_expo:
  assumes "0 < x"
  shows "x < pow2 (expo x + 1)"
proof -
  have "log 2 x < of_int (\<lfloor>log 2 x\<rfloor> + 1)" by linarith
  also have "\<dots> \<le> of_int (expo x + 1)"
    using assms by (simp add: expo_def)
  finally have "log 2 x < of_int (expo x + 1)" .
  then have "x < 2 powr (of_int (expo x + 1))"
    using assms by (simp add: log_less_iff)
  then show ?thesis by (simp only: pow2_powr)
qed

lemma pow2_expo_le:
  assumes "0 < x" "- 1022 < expo x"
  shows "pow2 (expo x) \<le> x"
proof -
  have e: "expo x = \<lfloor>log 2 x\<rfloor>" using assms by (simp add: expo_def max_def split: if_splits)
  have "of_int (expo x) \<le> log 2 x" unfolding e by simp
  then have "2 powr (of_int (expo x)) \<le> x"
    using assms(1) by (simp add: powr_le_iff)
  then show ?thesis by (simp only: pow2_powr)
qed

lemma expo_subnormal:
  assumes "0 < x" "x < pow2 (- 1022)"
  shows "expo x = - 1022"
proof -
  have "x < 2 powr (of_int (- 1022))" using assms(2) by (simp only: pow2_powr)
  then have "log 2 x < of_int (- 1022)" using assms(1) by (simp add: log_less_iff)
  then have "\<lfloor>log 2 x\<rfloor> < - 1022" by (simp add: floor_less_iff)
  then show ?thesis using assms by (simp add: expo_def)
qed

lemma expo_mono:
  assumes "0 < x" "x \<le> y"
  shows "expo x \<le> expo y"
proof -
  have "log 2 x \<le> log 2 y" using assms by simp
  then have "\<lfloor>log 2 x\<rfloor> \<le> \<lfloor>log 2 y\<rfloor>" by (rule floor_mono)
  then show ?thesis using assms by (simp add: expo_def)
qed

lemma rd_eval:
  assumes "pow2 k \<le> \<bar>x\<bar>" "\<bar>x\<bar> < pow2 (k + 1)" "- 1022 \<le> k"
  shows "rd x = pow2 (k - 52) * of_int (round_even (x / pow2 (k - 52)))"
proof -
  have "x \<noteq> 0" using assms(1) pow2_pos [of k] by fastforce
  then show ?thesis by (simp add: rd_def expo_eq [OF assms])
qed

lemma rd_0 [simp]: "rd 0 = 0"
  by (simp add: rd_def)

lemma rd_minus: "rd (- x) = - rd x"
  by (simp add: rd_def round_even_minus)

lemma rd_nonneg:
  assumes "0 \<le> x"
  shows "0 \<le> rd x"
proof -
  have "of_int 0 \<le> x / pow2 (expo x - 52)" using assms by simp
  then have "0 \<le> round_even (x / pow2 (expo x - 52))" by (rule round_even_ge)
  then show ?thesis by (simp add: rd_def)
qed

lemma rd_le_pow2:
  assumes "0 < x"
  shows "rd x \<le> pow2 (expo x + 1)"
proof -
  let ?u = "pow2 (expo x - 52)"
  have "x / ?u \<le> pow2 53"
    using less_pow2_expo [OF assms] by (simp add: pow2_split1 [of "expo x"] pos_divide_le_eq mult.commute)
  then have "round_even (x / ?u) \<le> 2 ^ 53"
    unfolding pow2_53 by (rule round_even_le)
  then have "of_int (round_even (x / ?u)) \<le> pow2 53"
    unfolding pow2_53 by (simp only: of_int_le_iff)
  then have "?u * of_int (round_even (x / ?u)) \<le> ?u * pow2 53"
    by (simp add: mult_left_mono)
  then show ?thesis using assms by (simp add: rd_def pow2_split1 [of "expo x"])
qed

lemma rd_ge_pow2:
  assumes "0 < x" "pow2 (expo x) \<le> x"
  shows "pow2 (expo x) \<le> rd x"
proof -
  let ?u = "pow2 (expo x - 52)"
  have "pow2 52 \<le> x / ?u"
    using assms(2) by (simp add: pow2_split [of "expo x"] pos_le_divide_eq mult.commute)
  then have "2 ^ 52 \<le> round_even (x / ?u)"
    unfolding pow2_52 by (rule round_even_ge)
  then have "pow2 52 \<le> of_int (round_even (x / ?u))"
    unfolding pow2_52 by (simp only: of_int_le_iff)
  then have "?u * pow2 52 \<le> ?u * of_int (round_even (x / ?u))"
    by (simp add: mult_left_mono)
  then show ?thesis using assms by (simp add: rd_def pow2_split [of "expo x"])
qed

lemma rd_mono_pos:
  assumes "0 < x" "x \<le> y"
  shows "rd x \<le> rd y"
proof (cases "expo x = expo y")
  case True
  let ?u = "pow2 (expo y - 52)"
  have "x / ?u \<le> y / ?u" using assms(2) by (intro divide_right_mono) simp_all
  then have "round_even (x / ?u) \<le> round_even (y / ?u)" by (rule round_even_mono)
  then have "?u * of_int (round_even (x / ?u)) \<le> ?u * of_int (round_even (y / ?u))"
    by (simp add: mult_left_mono)
  then show ?thesis using assms True by (simp add: rd_def)
next
  case False
  then have lt: "expo x < expo y" using expo_mono [OF assms] by simp
  have y: "0 < y" using assms by simp
  have "- 1022 < expo y" using lt expo_ge [of x] by linarith
  then have "pow2 (expo y) \<le> rd y" using y by (intro rd_ge_pow2 pow2_expo_le)
  moreover have "pow2 (expo x + 1) \<le> pow2 (expo y)" using lt by (intro pow2_mono) simp
  ultimately show ?thesis using rd_le_pow2 [OF assms(1)] by linarith
qed

lemma rd_mono:
  assumes "x \<le> y"
  shows "rd x \<le> rd y"
proof -
  consider "0 < x" | "x \<le> 0" "0 \<le> y" | "y < 0" using assms by linarith
  then show ?thesis
  proof cases
    case 1
    then show ?thesis using assms by (rule rd_mono_pos)
  next
    case 2
    have "rd x \<le> 0" using rd_nonneg [of "- x"] 2(1) by (simp add: rd_minus)
    then show ?thesis using rd_nonneg [OF 2(2)] by linarith
  next
    case 3
    have "rd (- y) \<le> rd (- x)" using 3 assms by (intro rd_mono_pos) simp_all
    then show ?thesis by (simp add: rd_minus)
  qed
qed

lemma rd_repr_pos:
  assumes a: "- 1022 \<le> a" and k: "0 < k" "k \<le> 2 ^ 53"
    and n: "a = - 1022 \<or> 2 ^ 52 \<le> k"
  shows "rd (pow2 (a - 52) * of_int k) = pow2 (a - 52) * of_int k"
proof -
  let ?u = "pow2 (a - 52)"
  let ?x = "?u * of_int k"
  have x: "0 < ?x" using k(1) by simp
  have same: "rd ?x = ?x" if "expo ?x = a"
    using x that by (simp add: rd_def)
  consider (top) "k = 2 ^ 53" | (normal) "2 ^ 52 \<le> k" "k < 2 ^ 53" | (sub) "k < 2 ^ 52"
    using k(2) by linarith
  then show ?thesis
  proof cases
    case top
    have xv: "?x = pow2 (a + 1)"
      unfolding top pow2_split1 [of a] pow2_53 by simp
    have ex: "expo (pow2 (a + 1)) = a + 1"
      using a by (intro expo_eq) (simp_all add: pow2_less)
    have nz: "pow2 (a + 1) \<noteq> 0"
      using pow2_pos [of "a + 1"] by linarith
    have "rd (pow2 (a + 1)) = pow2 (a + 1 - 52) * of_int (round_even (pow2 (a + 1) / pow2 (a + 1 - 52)))"
      unfolding rd_def ex using nz by (simp only: if_False)
    also have "pow2 (a + 1) / pow2 (a + 1 - 52) = of_int (2 ^ 52)"
      using pow2_split [of "a + 1"] by (simp add: pow2_52)
    also have "pow2 (a + 1 - 52) * of_int (round_even (of_int (2 ^ 52))) = pow2 (a + 1)"
      unfolding round_even_of_int using pow2_split [of "a + 1"] by (simp add: pow2_52)
    finally show ?thesis unfolding xv .
  next
    case normal
    have "pow2 a \<le> ?x"
      unfolding pow2_split [of a] pow2_52 using normal(1)
      by (intro mult_left_mono) (simp_all only: of_int_le_iff pow2_nonneg)
    moreover have "?x < pow2 (a + 1)"
      unfolding pow2_split1 [of a] pow2_53 using normal(2)
      by (intro mult_strict_left_mono) (simp_all only: of_int_less_iff pow2_pos)
    ultimately have "expo ?x = a"
      using a x by (intro expo_eq) simp_all
    then show ?thesis by (rule same)
  next
    case sub
    then have a': "a = - 1022" using n by linarith
    have "?x < pow2 a"
      unfolding pow2_split [of a] pow2_52 using sub
      by (intro mult_strict_left_mono) (simp_all only: of_int_less_iff pow2_pos)
    then have "expo ?x = a"
      using x unfolding a' by (intro expo_subnormal) simp_all
    then show ?thesis by (rule same)
  qed
qed

lemma rd_idem_pos:
  assumes "0 < x"
  shows "rd (rd x) = rd x"
proof -
  let ?a = "expo x"
  let ?u = "pow2 (?a - 52)"
  let ?k = "round_even (x / ?u)"
  have r: "rd x = ?u * of_int ?k" using assms by (simp add: rd_def)
  have k0: "0 \<le> ?k" using assms by (intro round_even_ge) simp
  have "?u * of_int ?k \<le> ?u * pow2 53"
    using rd_le_pow2 [OF assms] unfolding r pow2_split1 [of ?a] .
  then have "of_int ?k \<le> pow2 53" by (simp add: mult_le_cancel_left_pos)
  then have k1: "?k \<le> 2 ^ 53" unfolding pow2_53 by (simp only: of_int_le_iff)
  have k2: "?a = - 1022 \<or> 2 ^ 52 \<le> ?k"
  proof (cases "?a = - 1022")
    case False
    then have "- 1022 < ?a" using expo_ge [of x] by linarith
    then have "pow2 ?a \<le> rd x" using assms by (intro rd_ge_pow2 pow2_expo_le)
    then have "?u * pow2 52 \<le> ?u * of_int ?k" unfolding r pow2_split [of ?a] .
    then have "pow2 52 \<le> of_int ?k" by (simp add: mult_le_cancel_left_pos)
    then have "2 ^ 52 \<le> ?k" unfolding pow2_52 by (simp only: of_int_le_iff)
    then show ?thesis by (rule disjI2)
  qed simp
  show ?thesis
  proof (cases "?k = 0")
    case True
    then show ?thesis unfolding r by simp
  next
    case False
    then have "0 < ?k" using k0 by linarith
    then show ?thesis unfolding r using expo_ge [of x] k1 k2 by (intro rd_repr_pos)
  qed
qed

lemma rd_idem [simp]: "rd (rd x) = rd x"
proof -
  consider "0 < x" | "x = 0" | "x < 0" by linarith
  then show ?thesis
  proof cases
    case 1
    then show ?thesis by (rule rd_idem_pos)
  next
    case 2
    then show ?thesis by simp
  next
    case 3
    then have "rd (rd (- x)) = rd (- x)" by (intro rd_idem_pos) simp
    then show ?thesis by (simp add: rd_minus)
  qed
qed

lemma rd_le: "x \<le> c \<Longrightarrow> rd c = c \<Longrightarrow> rd x \<le> c"
  using rd_mono [of x c] by simp

lemma rd_ge: "c \<le> x \<Longrightarrow> rd c = c \<Longrightarrow> c \<le> rd x"
  using rd_mono [of c x] by simp

lemma rd_tiny:
  assumes "\<bar>x\<bar> * 2 < pow2 (- 1074)"
  shows "rd x = 0"
proof (cases "x = 0")
  case False
  have "pow2 (- 1074) \<le> pow2 (- 1022)" by (intro pow2_mono) simp
  then have "\<bar>x\<bar> < pow2 (- 1022)" using assms by linarith
  then have e: "expo \<bar>x\<bar> = - 1022" using False by (intro expo_subnormal) simp_all
  have e': "expo x = - 1022" using e by (simp add: expo_def)
  have "\<bar>x / pow2 (- 1074)\<bar> < 1 / 2"
    using assms by (simp add: pos_divide_less_eq)
  then have "round_even (x / pow2 (- 1074)) = 0"
    by (rule round_even_small)
  then show ?thesis using False by (simp add: rd_def e')
qed simp

lemma rd_1 [simp]: "rd 1 = 1"
  by (subst rd_eval [of 0]) (simp_all add: pow2_def round_even_def Let_def)

lemma rd_2 [simp]: "rd 2 = 2"
  by (subst rd_eval [of 1]) (simp_all add: pow2_def round_even_def Let_def)

lemma rd_half [simp]: "rd (1 / 2) = 1 / 2"
  by (subst rd_eval [of "- 1"]) (simp_all add: pow2_def round_even_def Let_def)

lemma rd_3_2 [simp]: "rd (3 / 2) = 3 / 2"
  by (subst rd_eval [of 0]) (simp_all add: pow2_def round_even_def Let_def)

lemma rd_5_2 [simp]: "rd (5 / 2) = 5 / 2"
  by (subst rd_eval [of 1]) (simp_all add: pow2_def round_even_def Let_def)

lemma rd_3 [simp]: "rd 3 = 3"
  by (subst rd_eval [of 1]) (simp_all add: pow2_def round_even_def Let_def)

lemma rd_1_64 [simp]: "rd (1 / 64) = 1 / 64"
  by (subst rd_eval [of "- 6"]) (simp_all add: pow2_def round_even_def Let_def)

lemma rd_1_32 [simp]: "rd (1 / 32) = 1 / 32"
  by (subst rd_eval [of "- 5"]) (simp_all add: pow2_def round_even_def Let_def)

section \<open>The atmosphere\<close>

text \<open>The literals and the lapse term at 11000 m, rounded.\<close>

lemma rd_288_15: "rd (288.15) = 2534594204349235 / 2 ^ 43"
  by (subst rd_eval [of 8]) (simp_all add: pow2_def round_even_def Let_def)

lemma rd_0_0065: "rd (0.0065) = 7493989779944505 / 2 ^ 60"
  by (subst rd_eval [of "-8"]) (simp_all add: pow2_def round_even_def Let_def)

lemma rd_lapse_11000: "rd (7493989779944505 / 2 ^ 60 * 11000) = 143 / 2 ^ 1"
  by (subst rd_eval [of 6]) (simp_all add: pow2_def round_even_def Let_def)

lemma rd_t0_minus: "rd (2534594204349235 / 2 ^ 43 - 143 / 2 ^ 1) = 1905673553261363 / 2 ^ 43"
  by (subst rd_eval [of 7]) (simp_all add: pow2_def round_even_def Let_def)

lemma rd_216_65: "rd (216.65) = 7622694213045453 / 2 ^ 45"
  by (subst rd_eval [of 7]) (simp_all add: pow2_def round_even_def Let_def)

lemma LAPSE_d_nonneg: "0 \<le> LAPSE_d"
  unfolding LAPSE_d_def by (rule rd_nonneg) simp

lemma RHO0_d_nonneg: "0 \<le> RHO0_d"
  unfolding RHO0_d_def by (rule rd_nonneg) simp

lemma temperature_d_le_T0: "temperature_d h \<le> T0_d"
proof -
  have "rd (T0_d - fmul LAPSE_d h) \<le> rd T0_d" if "0 < h"
  proof (rule rd_mono)
    have "0 \<le> LAPSE_d * h" using LAPSE_d_nonneg that by simp
    then have "0 \<le> fmul LAPSE_d h" unfolding fmul_def by (rule rd_nonneg)
    then show "T0_d - fmul LAPSE_d h \<le> T0_d" by simp
  qed
  moreover have "rd T0_d = T0_d" "T_TROP_d \<le> T0_d"
    unfolding T0_d_def T_TROP_d_def by (simp_all add: rd_mono)
  ultimately show ?thesis
    by (auto simp: temperature_d_def fsub_def)
qed

lemma temperature_d_lapse_mono:
  assumes "0 < h1" "h1 \<le> h2" "h2 \<le> 11000"
  shows "temperature_d h2 \<le> temperature_d h1"
proof -
  have "LAPSE_d * h1 \<le> LAPSE_d * h2"
    using assms(2) LAPSE_d_nonneg by (rule mult_left_mono)
  then have "fmul LAPSE_d h1 \<le> fmul LAPSE_d h2"
    unfolding fmul_def by (rule rd_mono)
  then have "fsub T0_d (fmul LAPSE_d h2) \<le> fsub T0_d (fmul LAPSE_d h1)"
    unfolding fsub_def by (intro rd_mono) simp
  then show ?thesis using assms by (simp add: temperature_d_def TROPOPAUSE_ALT_def)
qed

lemma temperature_d_11000: "temperature_d 11000 = 1905673553261363 / 2 ^ 43"
proof -
  have "temperature_d 11000 = fsub T0_d (fmul LAPSE_d 11000)"
    by (simp add: temperature_d_def TROPOPAUSE_ALT_def)
  also have "\<dots> = 1905673553261363 / 2 ^ 43"
    by (simp only: fsub_def fmul_def T0_d_def LAPSE_d_def
          rd_288_15 rd_0_0065 rd_lapse_11000 rd_t0_minus)
  finally show ?thesis .
qed

lemma T_TROP_d_value: "T_TROP_d = 7622694213045453 / 2 ^ 45"
  by (simp only: T_TROP_d_def rd_216_65)

lemma temperature_d_above: "11000 < h \<Longrightarrow> temperature_d h = T_TROP_d"
  by (simp add: temperature_d_def TROPOPAUSE_ALT_def)

lemma temperature_d_step: "T_TROP_d = temperature_d 11000 + pow2 (- 45)"
  by (simp add: temperature_d_11000 T_TROP_d_value pow2_def)

lemma temperature_d_near_mono:
  assumes "0 \<le> h1" "h1 \<le> h2"
  shows "temperature_d h2 \<le> temperature_d h1 + pow2 (- 45)"
    and "h2 \<le> 11000 \<or> 11000 < h1 \<Longrightarrow> temperature_d h2 \<le> temperature_d h1"
proof -
  have same: "temperature_d h2 \<le> temperature_d h1" if "h2 \<le> 11000 \<or> 11000 < h1"
  proof (cases "11000 < h1")
    case True
    then show ?thesis using assms by (simp add: temperature_d_above)
  next
    case False
    then have h2: "h2 \<le> 11000" using that by simp
    show ?thesis
    proof (cases "0 < h1")
      case True
      then show ?thesis using assms h2 by (intro temperature_d_lapse_mono)
    next
      case False
      then have "temperature_d h1 = T0_d" using assms by (simp add: temperature_d_def)
      then show ?thesis using temperature_d_le_T0 [of h2] by simp
    qed
  qed
  then show "h2 \<le> 11000 \<or> 11000 < h1 \<Longrightarrow> temperature_d h2 \<le> temperature_d h1" .
  show "temperature_d h2 \<le> temperature_d h1 + pow2 (- 45)"
  proof (cases "h2 \<le> 11000 \<or> 11000 < h1")
    case True
    then show ?thesis using same [OF True] pow2_pos [of "- 45"] by linarith
  next
    case False
    then have h: "h1 \<le> 11000" "11000 < h2" by simp_all
    have "temperature_d 11000 \<le> temperature_d h1"
    proof (cases "0 < h1")
      case True
      then show ?thesis using h by (intro temperature_d_lapse_mono) simp_all
    next
      case False
      then have "temperature_d h1 = T0_d" using assms by (simp add: temperature_d_def)
      then show ?thesis using temperature_d_le_T0 [of 11000] by simp
    qed
    then show ?thesis
      using temperature_d_step h(2) by (simp add: temperature_d_above)
  qed
qed

lemma density_d_mono:
  assumes h: "0 \<le> h1" "h1 \<le> h2"
    and mono: "\<forall>x y. x \<le> y \<and> y \<le> 0 \<longrightarrow> m_exp lib x \<le> m_exp lib y"
    and le1: "\<forall>x. x \<le> 0 \<longrightarrow> m_exp lib x \<le> 1"
  shows "density_d lib h2 \<le> density_d lib h1"
proof (cases "h2 \<le> 0")
  case True
  then show ?thesis using h by (simp add: density_d_def)
next
  case h2: False
  have arg2: "fdiv (- h2) 7400 \<le> 0"
    unfolding fdiv_def using h2 rd_mono [of "- h2 / 7400" 0] by simp
  show ?thesis
  proof (cases "h1 \<le> 0")
    case True
    have "m_exp lib (fdiv (- h2) 7400) \<le> 1" using le1 arg2 by blast
    then have "RHO0_d * m_exp lib (fdiv (- h2) 7400) \<le> RHO0_d * 1"
      using RHO0_d_nonneg by (rule mult_left_mono)
    then have "fmul RHO0_d (m_exp lib (fdiv (- h2) 7400)) \<le> rd RHO0_d"
      unfolding fmul_def using rd_mono by fastforce
    then show ?thesis using True h2 by (simp add: density_d_def RHO0_d_def)
  next
    case False
    have "fdiv (- h2) 7400 \<le> fdiv (- h1) 7400"
      unfolding fdiv_def using h(2) by (intro rd_mono) simp
    then have "m_exp lib (fdiv (- h2) 7400) \<le> m_exp lib (fdiv (- h1) 7400)"
      using mono False rd_mono [of "- h1 / 7400" 0] by (simp add: fdiv_def)
    then have "RHO0_d * m_exp lib (fdiv (- h2) 7400) \<le> RHO0_d * m_exp lib (fdiv (- h1) 7400)"
      using RHO0_d_nonneg by (rule mult_left_mono)
    then show ?thesis using False h2 unfolding density_d_def fmul_def by (simp add: rd_mono)
  qed
qed

lemma correctly_rounded_exp:
  "x \<le> y \<Longrightarrow> m_exp correctly_rounded x \<le> m_exp correctly_rounded y"
  "x \<le> 0 \<Longrightarrow> m_exp correctly_rounded x \<le> 1"
proof -
  show "x \<le> y \<Longrightarrow> m_exp correctly_rounded x \<le> m_exp correctly_rounded y"
    by (simp add: correctly_rounded_def rd_mono)
  show "m_exp correctly_rounded x \<le> 1" if "x \<le> 0"
    using that rd_mono [of "exp x" 1] by (simp add: correctly_rounded_def)
qed

text \<open>
  Claim C9, as stated, fails in the doubles of the code.  The lapse formula gives
  216.64999999999998 K at 11000 m, one unit in the last place below the constant 216.65 K
  that is returned above 11000 m, so the temperature rises from 11000 m to 11001 m.  And
  the density is not strictly decreasing: at the smallest positive altitude the quotient
  \<open>-h / 7400\<close> rounds to zero, and the density is the sea-level density again.
\<close>

theorem atmosphere_rounding:
  "(0::real) \<le> 11000 \<and> (11000::real) < 11001
   \<and> temperature_d 11000 < temperature_d 11001
   \<and> (0::real) \<le> 0 \<and> 0 < pow2 (- 1074)
   \<and> density_d correctly_rounded (pow2 (- 1074)) = density_d correctly_rounded 0"
proof -
  have "temperature_d 11001 = T_TROP_d" by (simp add: temperature_d_above)
  then have "temperature_d 11000 < temperature_d 11001"
    using temperature_d_step pow2_pos [of "- 45"] by linarith
  moreover have "density_d correctly_rounded (pow2 (- 1074)) = density_d correctly_rounded 0"
  proof -
    have "\<bar>- pow2 (- 1074) / 7400\<bar> * 2 < pow2 (- 1074)"
      by (simp add: abs_mult)
    then have "fdiv (- pow2 (- 1074)) 7400 = 0"
      unfolding fdiv_def by (rule rd_tiny)
    then show ?thesis
      by (simp add: density_d_def fmul_def correctly_rounded_def RHO0_d_def)
  qed
  ultimately show ?thesis by simp
qed

text \<open>
  Claim C9, amended.  For altitudes \<open>0 \<le> h1 < h2\<close>: the temperature at \<open>h2\<close> is at most
  the temperature at \<open>h1\<close> when both altitudes are at most 11000 m or both are above, and
  in every case it exceeds the temperature at \<open>h1\<close> by at most \<open>2 ^ - 45\<close> K, one unit in
  the last place of 216.65; the density at \<open>h2\<close> is at most the density at \<open>h1\<close>, provided
  \<open>Math.exp\<close> is monotone on arguments up to 0 and at most 1 there; and at both altitudes
  the pressure is the product of density, 287.05 and temperature, multiplied in this order
  in doubles.
\<close>

theorem atmosphere_relations:
  assumes "0 \<le> h1" "h1 < h2"
  shows "(h2 \<le> 11000 \<or> 11000 < h1 \<longrightarrow> temperature_d h2 \<le> temperature_d h1)
   \<and> temperature_d h2 \<le> temperature_d h1 + pow2 (- 45)
   \<and> ((\<forall>x y. x \<le> y \<and> y \<le> 0 \<longrightarrow> m_exp lib x \<le> m_exp lib y)
        \<and> (\<forall>x. x \<le> 0 \<longrightarrow> m_exp lib x \<le> 1)
        \<longrightarrow> density_d lib h2 \<le> density_d lib h1)
   \<and> pressure_d lib h1 = fmul (fmul (density_d lib h1) R_AIR_d) (temperature_d h1)
   \<and> pressure_d lib h2 = fmul (fmul (density_d lib h2) R_AIR_d) (temperature_d h2)"
proof -
  have h: "h1 \<le> h2" using assms by simp
  show ?thesis
    using temperature_d_near_mono [OF assms(1) h] density_d_mono [OF assms(1) h, of lib]
    by (simp add: pressure_d_def Let_def)
qed

theorem atmosphere_relations_witness:
  "(0::real) \<le> 0 \<and> (0::real) < 7400 \<and> (7400::real) \<le> 11000
   \<and> temperature_d 7400 \<le> temperature_d 0
   \<and> density_d correctly_rounded 7400 \<le> density_d correctly_rounded 0
   \<and> pressure_d correctly_rounded 7400
       = fmul (fmul (density_d correctly_rounded 7400) R_AIR_d) (temperature_d 7400)
   \<and> (0::real) < 11001 \<and> temperature_d 11001 \<le> temperature_d 0 + pow2 (- 45)"
proof -
  have e: "(\<forall>x y. x \<le> y \<and> y \<le> 0 \<longrightarrow> m_exp correctly_rounded x \<le> m_exp correctly_rounded y)
           \<and> (\<forall>x. x \<le> 0 \<longrightarrow> m_exp correctly_rounded x \<le> 1)"
    using correctly_rounded_exp by blast
  show ?thesis
    using atmosphere_relations [of 0 7400 correctly_rounded]
          atmosphere_relations [of 0 11001 correctly_rounded] e
    by simp
qed

section \<open>The mass along a trajectory\<close>

lemma step_d_time: "time (stepSimulation_d lib s p dt) = fadd (time s) dt"
  by (simp only: stepSimulation_d_def Let_def SimulationState.select_convs)

lemma step_d_mass:
  "mass (stepSimulation_d lib s p dt) =
     (if in_burn_d p (fadd (time s) dt) then burn_mass_d p (fadd (time s) dt)
      else if burn_end_d p \<le> fadd (time s) dt \<and> phase s = Burn
      then fadd (dryMass p) (motor_dryMass (motor p))
      else mass s)"
  by (simp only: stepSimulation_d_def Let_def SimulationState.select_convs in_burn_d_def
        burn_end_d_def burn_mass_d_def start_of_def)
     simp

lemma step_d_phase:
  "phase (stepSimulation_d lib s p dt) =
     (case phase s of
        Pre \<Rightarrow> if start_of p \<le> fadd (time s) dt
               then (if in_burn_d p (fadd (time s) dt) then Burn
                     else if velocity s < 0 then Apogee else Coast)
               else Pre
      | Burn \<Rightarrow> if in_burn_d p (fadd (time s) dt) then Burn
               else if velocity s < 0 then Apogee else Coast
      | Coast \<Rightarrow> if velocity s < 0 then Apogee else Coast
      | Apogee \<Rightarrow> Recovery
      | Recovery \<Rightarrow> Recovery)"
  by (simp only: stepSimulation_d_def Let_def SimulationState.select_convs in_burn_d_def
        burn_end_d_def start_of_def)
     (cases "phase s"; simp)

lemma trajectory_d_time_double:
  "rd (time (trajectory_d lib p dt n)) = time (trajectory_d lib p dt n)"
  by (cases n)
     (simp_all add: createSimulationState_d_def initialState_d_def Let_def step_d_time fadd_def)

lemma trajectory_d_time_step:
  assumes "0 \<le> dt"
  shows "time (trajectory_d lib p dt n) \<le> time (trajectory_d lib p dt (Suc n))"
proof -
  have "rd (time (trajectory_d lib p dt n)) \<le> rd (time (trajectory_d lib p dt n) + dt)"
    using assms by (intro rd_mono) simp
  then show ?thesis
    by (simp add: trajectory_d_time_double step_d_time fadd_def)
qed

lemma trajectory_d_time_mono:
  assumes "0 \<le> dt" "i \<le> j"
  shows "time (trajectory_d lib p dt i) \<le> time (trajectory_d lib p dt j)"
  using assms(2)
proof (induction j)
  case 0
  then show ?case by simp
next
  case (Suc j)
  show ?case
  proof (cases "i = Suc j")
    case True
    then show ?thesis by simp
  next
    case False
    then have "time (trajectory_d lib p dt i) \<le> time (trajectory_d lib p dt j)"
      using Suc by simp
    then show ?thesis
      using trajectory_d_time_step [OF assms(1), of lib p j] by linarith
  qed
qed

lemma mass_inv_d_0: "mass_inv_d lib p dt 0"
  by (simp add: mass_inv_d_def createSimulationState_d_def initialState_d_def Let_def)

lemma mass_inv_d_Suc:
  assumes inv: "mass_inv_d lib p dt n" and dt: "0 \<le> dt"
  shows "mass_inv_d lib p dt (Suc n)"
proof -
  define s where "s = trajectory_d lib p dt n"
  define s' where "s' = stepSimulation_d lib s p dt"
  let ?st = "start_of p"
  let ?t = "time s" and ?t' = "fadd (time s) dt"
  have s': "trajectory_d lib p dt (Suc n) = s'" by (simp add: s'_def s_def)
  have tm: "time s' = ?t'" by (simp add: s'_def step_d_time)
  have le: "?t \<le> ?t'"
    using trajectory_d_time_step [OF dt, of lib p n] by (simp add: s_def step_d_time)
  have i1: "?t < ?st \<Longrightarrow> phase s = Pre"
    and i2: "\<not> burn_sampled_d lib p dt n \<Longrightarrow> mass s = mass (createSimulationState_d lib p)"
            "\<not> burn_sampled_d lib p dt n \<Longrightarrow> phase s \<noteq> Burn"
            "\<not> burn_sampled_d lib p dt n \<Longrightarrow> in_burn_d p ?t \<Longrightarrow> phase s = Pre"
    and i3: "burn_sampled_d lib p dt n \<Longrightarrow> ?st \<le> ?t"
    and i4: "burn_sampled_d lib p dt n \<Longrightarrow> in_burn_d p ?t \<Longrightarrow> phase s = Burn"
    and i5: "burn_sampled_d lib p dt n \<Longrightarrow> burn_end_d p \<le> ?t
               \<Longrightarrow> mass s = fadd (dryMass p) (motor_dryMass (motor p))"
    using inv by (simp_all add: mass_inv_d_def Let_def s_def)
  have bs: "burn_sampled_d lib p dt (Suc n) = (burn_sampled_d lib p dt n \<or> in_burn_d p ?t')"
    by (simp only: burn_sampled_d.simps s' tm)
  have c1: "phase s' = Pre" if "?t' < ?st"
  proof -
    have "phase s = Pre" using that le by (intro i1) simp
    then show ?thesis using that by (simp add: s'_def step_d_phase)
  qed
  have c2: "mass s' = mass (createSimulationState_d lib p) \<and> phase s' \<noteq> Burn
            \<and> (in_burn_d p ?t' \<longrightarrow> phase s' = Pre)"
    if "\<not> burn_sampled_d lib p dt (Suc n)"
  proof -
    have n: "\<not> burn_sampled_d lib p dt n" "\<not> in_burn_d p ?t'" using that bs by simp_all
    have "mass s' = mass (createSimulationState_d lib p)"
      using n i2(1,2) by (simp add: s'_def step_d_mass)
    moreover have "phase s' \<noteq> Burn"
      using n(2) i2(2) [OF n(1)] by (cases "phase s") (simp_all add: s'_def step_d_phase)
    ultimately show ?thesis using n(2) by simp
  qed
  have c3: "?st \<le> ?t'" if "burn_sampled_d lib p dt (Suc n)"
  proof (cases "burn_sampled_d lib p dt n")
    case True
    then show ?thesis using i3 le by fastforce
  next
    case False
    then show ?thesis using that bs by (simp add: in_burn_d_def)
  qed
  have c4: "phase s' = Burn" if ib: "in_burn_d p ?t'"
  proof -
    have "phase s = Pre \<or> phase s = Burn"
    proof (cases "burn_sampled_d lib p dt n")
      case True
      have "in_burn_d p ?t" using i3 [OF True] ib le by (simp add: in_burn_d_def)
      then show ?thesis using i4 [OF True] by simp
    next
      case False
      show ?thesis
      proof (cases "?t < ?st")
        case True
        then show ?thesis using i1 by simp
      next
        case False
        then have "in_burn_d p ?t" using ib le by (simp add: in_burn_d_def)
        then show ?thesis using i2(3) \<open>\<not> burn_sampled_d lib p dt n\<close> by simp
      qed
    qed
    then show ?thesis
      using ib by (auto simp: s'_def step_d_phase in_burn_d_def)
  qed
  have c5: "mass s' = fadd (dryMass p) (motor_dryMass (motor p))"
    if sm: "burn_sampled_d lib p dt (Suc n)" and af: "burn_end_d p \<le> ?t'"
  proof -
    have nb: "\<not> in_burn_d p ?t'" using af by (simp add: in_burn_d_def)
    then have smn: "burn_sampled_d lib p dt n" using sm bs by simp
    show ?thesis
    proof (cases "burn_end_d p \<le> ?t")
      case True
      then show ?thesis using i5 [OF smn] nb by (simp add: s'_def step_d_mass)
    next
      case False
      then have "in_burn_d p ?t" using i3 [OF smn] by (simp add: in_burn_d_def)
      then have "phase s = Burn" using i4 [OF smn] by simp
      then show ?thesis using nb af by (simp add: s'_def step_d_mass)
    qed
  qed
  show ?thesis
    unfolding mass_inv_d_def Let_def s' tm
    using c1 c2 c3 c4 c5 by blast
qed

lemma mass_inv_d_all:
  assumes "0 \<le> dt"
  shows "mass_inv_d lib p dt n"
  by (induction n) (simp_all add: mass_inv_d_0 mass_inv_d_Suc assms)

lemma burn_mass_d_antimono:
  assumes "t1 \<le> t2" "0 \<le> propellantMass (motor p)" "0 < burnTime (motor p)"
  shows "burn_mass_d p t2 \<le> burn_mass_d p t1"
proof -
  let ?b = "burnTime (motor p)" and ?m = "propellantMass (motor p)"
  have "fsub t1 (start_of p) \<le> fsub t2 (start_of p)"
    unfolding fsub_def using assms(1) by (intro rd_mono) simp
  then have "fsub t1 (start_of p) / ?b \<le> fsub t2 (start_of p) / ?b"
    using assms(3) by (intro divide_right_mono) simp_all
  then have "fdiv (fsub t1 (start_of p)) ?b \<le> fdiv (fsub t2 (start_of p)) ?b"
    unfolding fdiv_def by (rule rd_mono)
  then have "fdiv (fsub t1 (start_of p)) ?b * ?m \<le> fdiv (fsub t2 (start_of p)) ?b * ?m"
    using assms(2) by (rule mult_right_mono)
  then have "fmul (fdiv (fsub t1 (start_of p)) ?b) ?m \<le> fmul (fdiv (fsub t2 (start_of p)) ?b) ?m"
    unfolding fmul_def by (rule rd_mono)
  then show ?thesis
    unfolding burn_mass_d_def fsub_def [of "fadd _ _"] by (intro rd_mono) simp
qed

lemma burn_sampled_d_later:
  assumes "burn_sampled_d lib p dt i" "i \<le> j"
  shows "burn_sampled_d lib p dt j"
  using assms(2)
proof (induction j)
  case 0
  then show ?case using assms(1) by simp
next
  case (Suc j)
  show ?case
  proof (cases "i = Suc j")
    case True
    then show ?thesis using assms(1) by simp
  next
    case False
    then have "burn_sampled_d lib p dt j" using Suc by simp
    then show ?thesis by simp
  qed
qed

lemma burn_sampled_d_first:
  assumes "start_of p = 0" "rd dt = dt" "rd (burnTime (motor p)) = burnTime (motor p)"
    "0 \<le> dt" "dt < burnTime (motor p)"
  shows "burn_sampled_d lib p dt (Suc n)"
proof -
  have "time (trajectory_d lib p dt (Suc 0)) = dt"
    using assms(2)
    by (simp add: step_d_time createSimulationState_d_def initialState_d_def Let_def fadd_def)
  moreover have "burn_end_d p = burnTime (motor p)"
    using assms(1,3) by (simp add: burn_end_d_def fadd_def)
  ultimately have "burn_sampled_d lib p dt (Suc 0)"
    using assms(1,4,5) by (simp add: in_burn_d_def del: trajectory_d.simps)
  then show ?thesis by (rule burn_sampled_d_later) simp
qed

text \<open>The masses of the example rocket, rounded as the code adds them.\<close>

lemma rd_0_02: "rd (0.02) = 5764607523034235 / 2 ^ 58"
  by (subst rd_eval [of "-6"]) (simp_all add: pow2_def round_even_def Let_def)

lemma rd_0_05: "rd (0.05) = 3602879701896397 / 2 ^ 56"
  by (subst rd_eval [of "-5"]) (simp_all add: pow2_def round_even_def Let_def)

lemma rd_0_01: "rd (0.01) = 5764607523034235 / 2 ^ 59"
  by (subst rd_eval [of "-7"]) (simp_all add: pow2_def round_even_def Let_def)

lemma rd_0_012: "rd (0.012) = 3458764513820541 / 2 ^ 58"
  by (subst rd_eval [of "-7"]) (simp_all add: pow2_def round_even_def Let_def)

lemma rd_0_024: "rd (0.024) = 3458764513820541 / 2 ^ 57"
  by (subst rd_eval [of "-6"]) (simp_all add: pow2_def round_even_def Let_def)

lemma rd_0_112: "rd (0.112) = 8070450532247929 / 2 ^ 56"
  by (subst rd_eval [of "-4"]) (simp_all add: pow2_def round_even_def Let_def)

lemma rd_1_6: "rd (1.6) = 3602879701896397 / 2 ^ 51"
  by (subst rd_eval [of 0]) (simp_all add: pow2_def round_even_def Let_def)

lemma rd_sum1: "rd (5764607523034235 / 2 ^ 58 + 3602879701896397 / 2 ^ 56) = 1261007895663739 / 2 ^ 54"
  by (subst rd_eval [of "-4"]) (simp_all add: pow2_def round_even_def Let_def)

lemma rd_sum2: "rd (1261007895663739 / 2 ^ 54 + 5764607523034235 / 2 ^ 59) = 5764607523034235 / 2 ^ 56"
  by (subst rd_eval [of "-4"]) (simp_all add: pow2_def round_even_def Let_def)

lemma rd_sum3: "rd (5764607523034235 / 2 ^ 56 + 5764607523034235 / 2 ^ 58) = 3602879701896397 / 2 ^ 55"
  by (subst rd_eval [of "-4"]) (simp_all add: pow2_def round_even_def Let_def)

lemma rd_sum4: "rd (3602879701896397 / 2 ^ 55 + 3458764513820541 / 2 ^ 58) = 8070450532247929 / 2 ^ 56"
  by (subst rd_eval [of "-4"]) (simp_all add: pow2_def round_even_def Let_def)

lemma rd_wet1: "rd (8070450532247929 / 2 ^ 56 + 3458764513820541 / 2 ^ 57) = 1224979098644775 / 2 ^ 53"
  by (subst rd_eval [of "-3"]) (simp_all add: pow2_def round_even_def Let_def)

lemma rd_wet2: "rd (1224979098644775 / 2 ^ 53 + 3458764513820541 / 2 ^ 58) = 1333065489701667 / 2 ^ 53"
  by (subst rd_eval [of "-3"]) (simp_all add: pow2_def round_even_def Let_def)

lemma rd_dry1: "rd (8070450532247929 / 2 ^ 56 + 3458764513820541 / 2 ^ 58) = 1116892707587883 / 2 ^ 53"
  by (subst rd_eval [of "-4"]) (simp_all add: pow2_def round_even_def Let_def)

lemma getMotor_d_c6: "getMotor_d ''estes-c6'' = Some motor_c6_d"
  by (simp add: getMotor_d_def MOTORS_d_def motor_c6_d_def)

lemma dryMass_c6_d:
  "fadd (fadd (fadd (fadd (rd 0.02) (rd 0.05)) (rd 0.01)) (rd 0.02)) (rd 0.012) = rd 0.112"
  by (simp only: fadd_def rd_0_02 rd_0_05 rd_0_01 rd_0_012 rd_0_112
        rd_sum1 rd_sum2 rd_sum3 rd_sum4)

lemma getSimParams_d_c6: "getSimParams_d lib design_c6_d = Some params_c6_d"
  using dryMass_c6_d
  by (simp add: getSimParams_d_def design_c6_d_def getMotor_d_c6 Let_def params_c6_d_def
        motor_c6_d_def)

lemma wet_c6_d:
  "fadd (fadd (rd 0.112) (rd 0.024)) (rd 0.012) = 1333065489701667 / 2 ^ 53"
  by (simp only: fadd_def rd_0_112 rd_0_024 rd_0_012 rd_wet1 rd_wet2)

lemma dry_c6_d: "fadd (rd 0.112) (rd 0.012) = 1116892707587883 / 2 ^ 53"
  by (simp only: fadd_def rd_0_112 rd_0_012 rd_dry1)

lemma burnTime_c6_bounds: "3 / 2 \<le> rd 1.6" "rd 1.6 \<le> 2"
  using rd_mono [of "3 / 2" "1.6"] rd_mono [of "1.6" 2] by simp_all

text \<open>
  Claim C4, as stated, fails when no sample falls into the burn window.  With a timestep
  of 2 s the first sample of the example rocket (burn time 1.6 s) is already past burnout;
  the rocket goes from pre to coast directly and keeps its full wet mass
  0.14800000000000002 kg, while dry mass plus casing are 0.124 kg.
\<close>

theorem mass_after_skipped_burn:
  "getSimParams_d correctly_rounded design_c6_d = Some params_c6_d
   \<and> burn_end_d params_c6_d \<le> time (trajectory_d correctly_rounded params_c6_d 2 1)
   \<and> phase (trajectory_d correctly_rounded params_c6_d 2 1) = Coast
   \<and> mass (trajectory_d correctly_rounded params_c6_d 2 1) = 1333065489701667 / 2 ^ 53
   \<and> fadd (dryMass params_c6_d) (motor_dryMass (motor params_c6_d))
        = 1116892707587883 / 2 ^ 53
   \<and> mass (trajectory_d correctly_rounded params_c6_d 2 1)
        \<noteq> fadd (dryMass params_c6_d) (motor_dryMass (motor params_c6_d))"
proof -
  let ?lib = correctly_rounded
  have s: "start_of params_c6_d = 0" "burnTime (motor params_c6_d) = rd 1.6"
    "dryMass params_c6_d = rd 0.112" "motor_dryMass (motor params_c6_d) = rd 0.012"
    "propellantMass (motor params_c6_d) = rd 0.024"
    by (simp_all add: params_c6_d_def motor_c6_d_def start_of_def)
  have i: "time (createSimulationState_d ?lib params_c6_d) = 0"
    "phase (createSimulationState_d ?lib params_c6_d) = Pre"
    "velocity (createSimulationState_d ?lib params_c6_d) = 0"
    by (simp_all add: createSimulationState_d_def initialState_d_def Let_def)
  have i4: "mass (createSimulationState_d ?lib params_c6_d) = 1333065489701667 / 2 ^ 53"
    by (simp only: createSimulationState_d_def initialState_d_def Let_def
          SimulationState.select_convs s wet_c6_d)
  have t: "trajectory_d ?lib params_c6_d 2 1
             = stepSimulation_d ?lib (createSimulationState_d ?lib params_c6_d) params_c6_d 2"
    by simp
  have e: "burn_end_d params_c6_d = rd 1.6"
    by (simp add: burn_end_d_def s fadd_def)
  have t2: "fadd 0 2 = 2" by (simp add: fadd_def)
  have d: "fadd (dryMass params_c6_d) (motor_dryMass (motor params_c6_d))
             = 1116892707587883 / 2 ^ 53"
    unfolding s by (rule dry_c6_d)
  have m: "mass (trajectory_d ?lib params_c6_d 2 1) = 1333065489701667 / 2 ^ 53"
    "phase (trajectory_d ?lib params_c6_d 2 1) = Coast"
    "burn_end_d params_c6_d \<le> time (trajectory_d ?lib params_c6_d 2 1)"
    unfolding t using burnTime_c6_bounds
    by (simp_all add: step_d_time step_d_phase step_d_mass in_burn_d_def e i i4 t2 s(1))
  show ?thesis
    using d m getSimParams_d_c6 [of ?lib] by (simp del: trajectory_d.simps)
qed

text \<open>
  The runs of the route sample the burn window: the ignition time is 0, and the timestep
  1/60 and the burn time of every catalog motor are doubles with the timestep the smaller.
\<close>

lemma DT_d_bounds: "rd DT_d = DT_d" "1 / 64 \<le> DT_d" "DT_d \<le> 1 / 32"
  using rd_mono [of "1 / 64" "1 / 60"] rd_mono [of "1 / 60" "1 / 32"]
  by (simp_all add: DT_d_def fdiv_def)

lemma route_runs_sample_burn:
  assumes "getSimParams_d lib design = Some p"
  shows "start_of p = 0 \<and> rd DT_d = DT_d \<and> rd (burnTime (motor p)) = burnTime (motor p)
         \<and> 0 < DT_d \<and> DT_d < burnTime (motor p)"
proof -
  obtain m where m: "getMotor_d (motorId design) = Some m" and p: "motor p = m" "start_of p = 0"
    using assms
    by (auto simp: getSimParams_d_def Let_def start_of_def split: option.splits)
  have "m \<in> set MOTORS_d"
    using m unfolding getMotor_d_def by (auto simp: find_Some_iff)
  then have "rd (burnTime m) = burnTime m \<and> 1 / 2 \<le> burnTime m"
    using rd_mono [of "1 / 2" "0.8"] rd_mono [of "1 / 2" "1.6"] rd_mono [of "1 / 2" "2.2"]
    by (auto simp: MOTORS_d_def)
  then show ?thesis using p DT_d_bounds by simp
qed

text \<open>
  Rounding moves the edge of the burn window.  With the ignition at 0.1 s and a timestep of
  1.7 s the first output time 1.7 lies below the rounded sum 0.1 + 1.6 =
  1.7000000000000002, so the step is within the burn window; the mass it assigns there,
  0.124 kg, is the value of \<open>burn_mass_d\<close>, here the same double as dry mass plus casing.
\<close>

lemma rd_0_1: "rd (0.1) = 3602879701896397 / 2 ^ 55"
  by (subst rd_eval [of "-4"]) (simp_all add: pow2_def round_even_def Let_def)

lemma rd_1_7: "rd (1.7) = 7656119366529843 / 2 ^ 52"
  by (subst rd_eval [of 0]) (simp_all add: pow2_def round_even_def Let_def)

lemma rd_edge_end: "rd (3602879701896397 / 2 ^ 55 + 3602879701896397 / 2 ^ 51) = 1914029841632461 / 2 ^ 50"
  by (subst rd_eval [of 0]) (simp_all add: pow2_def round_even_def Let_def)

lemma rd_edge_elapsed: "rd (7656119366529843 / 2 ^ 52 - 3602879701896397 / 2 ^ 55) = 7205759403792793 / 2 ^ 52"
  by (subst rd_eval [of 0]) (simp_all add: pow2_def round_even_def Let_def)

lemma rd_edge_fraction: "rd ((7205759403792793 / 2 ^ 52) / (3602879701896397 / 2 ^ 51)) = 9007199254740991 / 2 ^ 53"
  by (subst rd_eval [of "-1"]) (simp_all add: pow2_def round_even_def Let_def)

lemma rd_edge_used: "rd ((9007199254740991 / 2 ^ 53) * (3458764513820541 / 2 ^ 57)) = 6917529027641081 / 2 ^ 58"
  by (subst rd_eval [of "-6"]) (simp_all add: pow2_def round_even_def Let_def)

lemma rd_edge_full: "rd (1116892707587883 / 2 ^ 53 + 3458764513820541 / 2 ^ 57) = 5332261958806667 / 2 ^ 55"
  by (subst rd_eval [of "-3"]) (simp_all add: pow2_def round_even_def Let_def)

lemma rd_edge_mass: "rd (5332261958806667 / 2 ^ 55 - 6917529027641081 / 2 ^ 58) = 1116892707587883 / 2 ^ 53"
  by (subst rd_eval [of "-4"]) (simp_all add: pow2_def round_even_def Let_def)

lemma mass_in_burn_d:
  assumes "in_burn_d p (time (trajectory_d lib p dt (Suc k)))"
  shows "mass (trajectory_d lib p dt (Suc k))
           = burn_mass_d p (time (trajectory_d lib p dt (Suc k)))"
  using assms by (simp add: step_d_mass step_d_time)

lemma window_edge_example:
  "time (trajectory_d lib params_edge_d (rd 1.7) (Suc 0)) = 7656119366529843 / 2 ^ 52
   \<and> burn_end_d params_edge_d = 1914029841632461 / 2 ^ 50
   \<and> in_burn_d params_edge_d (time (trajectory_d lib params_edge_d (rd 1.7) (Suc 0)))
   \<and> mass (trajectory_d lib params_edge_d (rd 1.7) (Suc 0)) = 1116892707587883 / 2 ^ 53
   \<and> fadd (dryMass params_edge_d) (motor_dryMass (motor params_edge_d)) = 1116892707587883 / 2 ^ 53"
proof -
  let ?p = params_edge_d
  have s: "start_of ?p = rd 0.1" "burnTime (motor ?p) = rd 1.6"
    "dryMass ?p = rd 0.112" "motor_dryMass (motor ?p) = rd 0.012"
    "propellantMass (motor ?p) = rd 0.024"
    by (simp_all add: params_edge_d_def params_c6_d_def motor_c6_d_def start_of_def)
  have "time (trajectory_d lib ?p dt (Suc 0)) = rd dt" for dt
    by (simp add: step_d_time fadd_def createSimulationState_d_def initialState_d_def Let_def)
  from this [of "rd 1.7"] have "time (trajectory_d lib ?p (rd 1.7) (Suc 0)) = rd 1.7"
    by (simp only: rd_idem)
  then have t: "time (trajectory_d lib ?p (rd 1.7) (Suc 0)) = 7656119366529843 / 2 ^ 52"
    using rd_1_7 by (rule trans)
  have e: "burn_end_d ?p = 1914029841632461 / 2 ^ 50"
    by (simp only: burn_end_d_def s fadd_def rd_0_1 rd_1_6 rd_edge_end)
  have ib: "in_burn_d ?p (time (trajectory_d lib ?p (rd 1.7) (Suc 0)))"
    unfolding t in_burn_d_def e s rd_0_1 by simp
  have bm: "burn_mass_d ?p (7656119366529843 / 2 ^ 52) = 1116892707587883 / 2 ^ 53"
    by (simp only: burn_mass_d_def s fadd_def fsub_def fmul_def fdiv_def rd_0_1 rd_1_6
          rd_0_112 rd_0_012 rd_0_024 rd_dry1 rd_edge_full rd_edge_elapsed rd_edge_fraction
          rd_edge_used rd_edge_mass)
  have "mass (trajectory_d lib ?p (rd 1.7) (Suc 0))
          = burn_mass_d ?p (time (trajectory_d lib ?p (rd 1.7) (Suc 0)))"
    using ib by (rule mass_in_burn_d)
  then have m: "mass (trajectory_d lib ?p (rd 1.7) (Suc 0)) = 1116892707587883 / 2 ^ 53"
    unfolding t bm .
  have d: "fadd (dryMass ?p) (motor_dryMass (motor ?p)) = 1116892707587883 / 2 ^ 53"
    unfolding s by (rule dry_c6_d)
  show ?thesis
    using t e ib m d by blast
qed

text \<open>
  Rounding also lets the mass rise at burnout.  For the example rocket with a body of
  0.17 kg on the Estes A8 motor and the timestep 1/60 of the route, the 30th output time
  0.49999999999999994 is the last one within the burn window, with the mass 0.244 kg, and
  the 31st state has dry mass plus casing, 0.24400000000000002 kg.  Masses are therefore
  compared below only between output states within the burn window.
\<close>

lemma rd_0_17: "rd (0.17) = 6124895493223875 / 2 ^ 55"
  by (subst rd_eval [of "-3"]) (simp_all add: pow2_def round_even_def Let_def)

lemma rd_0_232: "rd (0.232) = 8358680908399641 / 2 ^ 55"
  by (subst rd_eval [of "-3"]) (simp_all add: pow2_def round_even_def Let_def)

lemma rd_0_006: "rd (0.006) = 3458764513820541 / 2 ^ 59"
  by (subst rd_eval [of "-8"]) (simp_all add: pow2_def round_even_def Let_def)

lemma rd_0_5: "rd (0.5) = 1 / 2 ^ 1"
  by (subst rd_eval [of "-1"]) (simp_all add: pow2_def round_even_def Let_def)

lemma rd_a8_sum1: "rd (5764607523034235 / 2 ^ 58 + 6124895493223875 / 2 ^ 55) = 3422735716801577 / 2 ^ 54"
  by (subst rd_eval [of "-3"]) (simp_all add: pow2_def round_even_def Let_def)

lemma rd_a8_sum2: "rd (3422735716801577 / 2 ^ 54 + 5764607523034235 / 2 ^ 59) = 3602879701896397 / 2 ^ 54"
  by (subst rd_eval [of "-3"]) (simp_all add: pow2_def round_even_def Let_def)

lemma rd_a8_sum3: "rd (3602879701896397 / 2 ^ 54 + 5764607523034235 / 2 ^ 58) = 7926335344172073 / 2 ^ 55"
  by (subst rd_eval [of "-3"]) (simp_all add: pow2_def round_even_def Let_def)

lemma rd_a8_sum4: "rd (7926335344172073 / 2 ^ 55 + 3458764513820541 / 2 ^ 58) = 8358680908399641 / 2 ^ 55"
  by (subst rd_eval [of "-3"]) (simp_all add: pow2_def round_even_def Let_def)

lemma rd_1_60: "rd (1 / 60) = 4803839602528529 / 2 ^ 58"
  by (subst rd_eval [of "-6"]) (simp_all add: pow2_def round_even_def Let_def)

lemma rd_time_2: "rd (4803839602528529 / 2 ^ 58 + 4803839602528529 / 2 ^ 58) = 4803839602528529 / 2 ^ 57"
  by (subst rd_eval [of "-5"]) (simp_all add: pow2_def round_even_def Let_def)

lemma rd_time_3: "rd (4803839602528529 / 2 ^ 57 + 4803839602528529 / 2 ^ 58) = 3602879701896397 / 2 ^ 56"
  by (subst rd_eval [of "-5"]) (simp_all add: pow2_def round_even_def Let_def)

lemma rd_time_4: "rd (3602879701896397 / 2 ^ 56 + 4803839602528529 / 2 ^ 58) = 4803839602528529 / 2 ^ 56"
  by (subst rd_eval [of "-4"]) (simp_all add: pow2_def round_even_def Let_def)

lemma rd_time_5: "rd (4803839602528529 / 2 ^ 56 + 4803839602528529 / 2 ^ 58) = 6004799503160661 / 2 ^ 56"
  by (subst rd_eval [of "-4"]) (simp_all add: pow2_def round_even_def Let_def)

lemma rd_time_6: "rd (6004799503160661 / 2 ^ 56 + 4803839602528529 / 2 ^ 58) = 7205759403792793 / 2 ^ 56"
  by (subst rd_eval [of "-4"]) (simp_all add: pow2_def round_even_def Let_def)

lemma rd_time_7: "rd (7205759403792793 / 2 ^ 56 + 4803839602528529 / 2 ^ 58) = 8406719304424925 / 2 ^ 56"
  by (subst rd_eval [of "-4"]) (simp_all add: pow2_def round_even_def Let_def)

lemma rd_time_8: "rd (8406719304424925 / 2 ^ 56 + 4803839602528529 / 2 ^ 58) = 4803839602528529 / 2 ^ 55"
  by (subst rd_eval [of "-3"]) (simp_all add: pow2_def round_even_def Let_def)

lemma rd_time_9: "rd (4803839602528529 / 2 ^ 55 + 4803839602528529 / 2 ^ 58) = 5404319552844595 / 2 ^ 55"
  by (subst rd_eval [of "-3"]) (simp_all add: pow2_def round_even_def Let_def)

lemma rd_time_10: "rd (5404319552844595 / 2 ^ 55 + 4803839602528529 / 2 ^ 58) = 6004799503160661 / 2 ^ 55"
  by (subst rd_eval [of "-3"]) (simp_all add: pow2_def round_even_def Let_def)

lemma rd_time_11: "rd (6004799503160661 / 2 ^ 55 + 4803839602528529 / 2 ^ 58) = 6605279453476727 / 2 ^ 55"
  by (subst rd_eval [of "-3"]) (simp_all add: pow2_def round_even_def Let_def)

lemma rd_time_12: "rd (6605279453476727 / 2 ^ 55 + 4803839602528529 / 2 ^ 58) = 7205759403792793 / 2 ^ 55"
  by (subst rd_eval [of "-3"]) (simp_all add: pow2_def round_even_def Let_def)

lemma rd_time_13: "rd (7205759403792793 / 2 ^ 55 + 4803839602528529 / 2 ^ 58) = 7806239354108859 / 2 ^ 55"
  by (subst rd_eval [of "-3"]) (simp_all add: pow2_def round_even_def Let_def)

lemma rd_time_14: "rd (7806239354108859 / 2 ^ 55 + 4803839602528529 / 2 ^ 58) = 8406719304424925 / 2 ^ 55"
  by (subst rd_eval [of "-3"]) (simp_all add: pow2_def round_even_def Let_def)

lemma rd_time_15: "rd (8406719304424925 / 2 ^ 55 + 4803839602528529 / 2 ^ 58) = 9007199254740991 / 2 ^ 55"
  by (subst rd_eval [of "-3"]) (simp_all add: pow2_def round_even_def Let_def)

lemma rd_time_16: "rd (9007199254740991 / 2 ^ 55 + 4803839602528529 / 2 ^ 58) = 4803839602528529 / 2 ^ 54"
  by (subst rd_eval [of "-2"]) (simp_all add: pow2_def round_even_def Let_def)

lemma rd_time_17: "rd (4803839602528529 / 2 ^ 54 + 4803839602528529 / 2 ^ 58) = 2552039788843281 / 2 ^ 53"
  by (subst rd_eval [of "-2"]) (simp_all add: pow2_def round_even_def Let_def)

lemma rd_time_18: "rd (2552039788843281 / 2 ^ 53 + 4803839602528529 / 2 ^ 58) = 5404319552844595 / 2 ^ 54"
  by (subst rd_eval [of "-2"]) (simp_all add: pow2_def round_even_def Let_def)

lemma rd_time_19: "rd (5404319552844595 / 2 ^ 54 + 4803839602528529 / 2 ^ 58) = 1426139882000657 / 2 ^ 52"
  by (subst rd_eval [of "-2"]) (simp_all add: pow2_def round_even_def Let_def)

lemma rd_time_20: "rd (1426139882000657 / 2 ^ 52 + 4803839602528529 / 2 ^ 58) = 6004799503160661 / 2 ^ 54"
  by (subst rd_eval [of "-2"]) (simp_all add: pow2_def round_even_def Let_def)

lemma rd_time_21: "rd (6004799503160661 / 2 ^ 54 + 4803839602528529 / 2 ^ 58) = 3152519739159347 / 2 ^ 53"
  by (subst rd_eval [of "-2"]) (simp_all add: pow2_def round_even_def Let_def)

lemma rd_time_22: "rd (3152519739159347 / 2 ^ 53 + 4803839602528529 / 2 ^ 58) = 6605279453476727 / 2 ^ 54"
  by (subst rd_eval [of "-2"]) (simp_all add: pow2_def round_even_def Let_def)

lemma rd_time_23: "rd (6605279453476727 / 2 ^ 54 + 4803839602528529 / 2 ^ 58) = 863189928579345 / 2 ^ 51"
  by (subst rd_eval [of "-2"]) (simp_all add: pow2_def round_even_def Let_def)

lemma rd_time_24: "rd (863189928579345 / 2 ^ 51 + 4803839602528529 / 2 ^ 58) = 7205759403792793 / 2 ^ 54"
  by (subst rd_eval [of "-2"]) (simp_all add: pow2_def round_even_def Let_def)

lemma rd_time_25: "rd (7205759403792793 / 2 ^ 54 + 4803839602528529 / 2 ^ 58) = 3752999689475413 / 2 ^ 53"
  by (subst rd_eval [of "-2"]) (simp_all add: pow2_def round_even_def Let_def)

lemma rd_time_26: "rd (3752999689475413 / 2 ^ 53 + 4803839602528529 / 2 ^ 58) = 7806239354108859 / 2 ^ 54"
  by (subst rd_eval [of "-2"]) (simp_all add: pow2_def round_even_def Let_def)

lemma rd_time_27: "rd (7806239354108859 / 2 ^ 54 + 4803839602528529 / 2 ^ 58) = 2026619832316723 / 2 ^ 52"
  by (subst rd_eval [of "-2"]) (simp_all add: pow2_def round_even_def Let_def)

lemma rd_time_28: "rd (2026619832316723 / 2 ^ 52 + 4803839602528529 / 2 ^ 58) = 8406719304424925 / 2 ^ 54"
  by (subst rd_eval [of "-2"]) (simp_all add: pow2_def round_even_def Let_def)

lemma rd_time_29: "rd (8406719304424925 / 2 ^ 54 + 4803839602528529 / 2 ^ 58) = 4353479639791479 / 2 ^ 53"
  by (subst rd_eval [of "-2"]) (simp_all add: pow2_def round_even_def Let_def)

lemma rd_time_30: "rd (4353479639791479 / 2 ^ 53 + 4803839602528529 / 2 ^ 58) = 9007199254740991 / 2 ^ 54"
  by (subst rd_eval [of "-2"]) (simp_all add: pow2_def round_even_def Let_def)

lemma rd_time_31: "rd (9007199254740991 / 2 ^ 54 + 4803839602528529 / 2 ^ 58) = 581714951868689 / 2 ^ 50"
  by (subst rd_eval [of "-1"]) (simp_all add: pow2_def round_even_def Let_def)

lemma rd_a8_dry: "rd (8358680908399641 / 2 ^ 55 + 3458764513820541 / 2 ^ 58) = 8791026472627209 / 2 ^ 55"
  by (subst rd_eval [of "-3"]) (simp_all add: pow2_def round_even_def Let_def)

lemma rd_a8_full: "rd (8791026472627209 / 2 ^ 55 + 3458764513820541 / 2 ^ 59) = 1 / 2 ^ 2"
  by (subst rd_eval [of "-2"]) (simp_all add: pow2_def round_even_def Let_def)

lemma rd_a8_elapsed: "rd (9007199254740991 / 2 ^ 54 - 0) = 9007199254740991 / 2 ^ 54"
  by (subst rd_eval [of "-2"]) (simp_all add: pow2_def round_even_def Let_def)

lemma rd_a8_fraction: "rd ((9007199254740991 / 2 ^ 54) / (1 / 2 ^ 1)) = 9007199254740991 / 2 ^ 53"
  by (subst rd_eval [of "-1"]) (simp_all add: pow2_def round_even_def Let_def)

lemma rd_a8_used: "rd ((9007199254740991 / 2 ^ 53) * (3458764513820541 / 2 ^ 59)) = 6917529027641081 / 2 ^ 60"
  by (subst rd_eval [of "-8"]) (simp_all add: pow2_def round_even_def Let_def)

lemma rd_a8_mass: "rd (1 / 2 ^ 2 - 6917529027641081 / 2 ^ 60) = 1098878309078401 / 2 ^ 52"
  by (subst rd_eval [of "-3"]) (simp_all add: pow2_def round_even_def Let_def)

lemma getMotor_d_a8: "getMotor_d ''estes-a8'' = Some motor_a8_d"
  by (simp add: getMotor_d_def MOTORS_d_def motor_a8_d_def)

lemma dryMass_a8_d:
  "fadd (fadd (fadd (fadd (rd 0.02) (rd 0.17)) (rd 0.01)) (rd 0.02)) (rd 0.012) = rd 0.232"
  by (simp only: fadd_def rd_0_02 rd_0_17 rd_0_01 rd_0_012 rd_0_232
        rd_a8_sum1 rd_a8_sum2 rd_a8_sum3 rd_a8_sum4)

lemma getSimParams_d_a8: "getSimParams_d lib design_a8_d = Some params_a8_d"
  using dryMass_a8_d
  by (simp add: getSimParams_d_def design_a8_d_def design_c6_d_def getMotor_d_a8 Let_def
        params_a8_d_def motor_a8_d_def)

lemma DT_d_value: "DT_d = 4803839602528529 / 2 ^ 58"
  by (simp only: DT_d_def fdiv_def rd_1_60)

lemma frame_times:
  "time (trajectory_d lib p DT_d 29) = 4353479639791479 / 2 ^ 53"
  "time (trajectory_d lib p DT_d 30) = 9007199254740991 / 2 ^ 54"
  "time (trajectory_d lib p DT_d 31) = 581714951868689 / 2 ^ 50"
proof -
  define t where "t = (\<lambda>n. time (trajectory_d lib p DT_d n))"
  have step: "t (Suc n) = rd (t n + 4803839602528529 / 2 ^ 58)" for n
    by (simp add: t_def step_d_time fadd_def DT_d_value)
  have n: "Suc 1 = 2" "Suc 2 = 3" "Suc 3 = 4" "Suc 4 = 5" "Suc 5 = 6" "Suc 6 = 7" "Suc 7 = 8" "Suc
    8 = 9" "Suc 9 = 10" "Suc 10 = 11" "Suc 11 = 12" "Suc 12 = 13" "Suc 13 = 14" "Suc 14 =
    15" "Suc 15 = 16" "Suc 16 = 17" "Suc 17 = 18" "Suc 18 = 19" "Suc 19 = 20" "Suc 20 = 21"
    "Suc 21 = 22" "Suc 22 = 23" "Suc 23 = 24" "Suc 24 = 25" "Suc 25 = 26" "Suc 26 = 27" "Suc
    27 = 28" "Suc 28 = 29" "Suc 29 = 30" "Suc 30 = 31"
    by simp_all
  have t0: "t 0 = 0"
    by (simp add: t_def createSimulationState_d_def initialState_d_def Let_def)
  have t1: "t 1 = 4803839602528529 / 2 ^ 58"
    using step [of 0] DT_d_bounds(1) by (simp add: t0 DT_d_value)
  have t2: "t 2 = 4803839602528529 / 2 ^ 57"
    using step [of 1] by (simp only: n t1 rd_time_2)
  have t3: "t 3 = 3602879701896397 / 2 ^ 56"
    using step [of 2] by (simp only: n t2 rd_time_3)
  have t4: "t 4 = 4803839602528529 / 2 ^ 56"
    using step [of 3] by (simp only: n t3 rd_time_4)
  have t5: "t 5 = 6004799503160661 / 2 ^ 56"
    using step [of 4] by (simp only: n t4 rd_time_5)
  have t6: "t 6 = 7205759403792793 / 2 ^ 56"
    using step [of 5] by (simp only: n t5 rd_time_6)
  have t7: "t 7 = 8406719304424925 / 2 ^ 56"
    using step [of 6] by (simp only: n t6 rd_time_7)
  have t8: "t 8 = 4803839602528529 / 2 ^ 55"
    using step [of 7] by (simp only: n t7 rd_time_8)
  have t9: "t 9 = 5404319552844595 / 2 ^ 55"
    using step [of 8] by (simp only: n t8 rd_time_9)
  have t10: "t 10 = 6004799503160661 / 2 ^ 55"
    using step [of 9] by (simp only: n t9 rd_time_10)
  have t11: "t 11 = 6605279453476727 / 2 ^ 55"
    using step [of 10] by (simp only: n t10 rd_time_11)
  have t12: "t 12 = 7205759403792793 / 2 ^ 55"
    using step [of 11] by (simp only: n t11 rd_time_12)
  have t13: "t 13 = 7806239354108859 / 2 ^ 55"
    using step [of 12] by (simp only: n t12 rd_time_13)
  have t14: "t 14 = 8406719304424925 / 2 ^ 55"
    using step [of 13] by (simp only: n t13 rd_time_14)
  have t15: "t 15 = 9007199254740991 / 2 ^ 55"
    using step [of 14] by (simp only: n t14 rd_time_15)
  have t16: "t 16 = 4803839602528529 / 2 ^ 54"
    using step [of 15] by (simp only: n t15 rd_time_16)
  have t17: "t 17 = 2552039788843281 / 2 ^ 53"
    using step [of 16] by (simp only: n t16 rd_time_17)
  have t18: "t 18 = 5404319552844595 / 2 ^ 54"
    using step [of 17] by (simp only: n t17 rd_time_18)
  have t19: "t 19 = 1426139882000657 / 2 ^ 52"
    using step [of 18] by (simp only: n t18 rd_time_19)
  have t20: "t 20 = 6004799503160661 / 2 ^ 54"
    using step [of 19] by (simp only: n t19 rd_time_20)
  have t21: "t 21 = 3152519739159347 / 2 ^ 53"
    using step [of 20] by (simp only: n t20 rd_time_21)
  have t22: "t 22 = 6605279453476727 / 2 ^ 54"
    using step [of 21] by (simp only: n t21 rd_time_22)
  have t23: "t 23 = 863189928579345 / 2 ^ 51"
    using step [of 22] by (simp only: n t22 rd_time_23)
  have t24: "t 24 = 7205759403792793 / 2 ^ 54"
    using step [of 23] by (simp only: n t23 rd_time_24)
  have t25: "t 25 = 3752999689475413 / 2 ^ 53"
    using step [of 24] by (simp only: n t24 rd_time_25)
  have t26: "t 26 = 7806239354108859 / 2 ^ 54"
    using step [of 25] by (simp only: n t25 rd_time_26)
  have t27: "t 27 = 2026619832316723 / 2 ^ 52"
    using step [of 26] by (simp only: n t26 rd_time_27)
  have t28: "t 28 = 8406719304424925 / 2 ^ 54"
    using step [of 27] by (simp only: n t27 rd_time_28)
  have t29: "t 29 = 4353479639791479 / 2 ^ 53"
    using step [of 28] by (simp only: n t28 rd_time_29)
  have t30: "t 30 = 9007199254740991 / 2 ^ 54"
    using step [of 29] by (simp only: n t29 rd_time_30)
  have t31: "t 31 = 581714951868689 / 2 ^ 50"
    using step [of 30] by (simp only: n t30 rd_time_31)
  show "time (trajectory_d lib p DT_d 29) = 4353479639791479 / 2 ^ 53"
    "time (trajectory_d lib p DT_d 30) = 9007199254740991 / 2 ^ 54"
    "time (trajectory_d lib p DT_d 31) = 581714951868689 / 2 ^ 50"
    using t29 t30 t31 by (simp_all only: t_def)
qed

lemma mass_rises_at_burnout:
  "getSimParams_d lib design_a8_d = Some params_a8_d
   \<and> in_burn_d params_a8_d (time (trajectory_d lib params_a8_d DT_d 30))
   \<and> mass (trajectory_d lib params_a8_d DT_d 30) = 1098878309078401 / 2 ^ 52
   \<and> burn_end_d params_a8_d \<le> time (trajectory_d lib params_a8_d DT_d 31)
   \<and> mass (trajectory_d lib params_a8_d DT_d 31) = 8791026472627209 / 2 ^ 55
   \<and> mass (trajectory_d lib params_a8_d DT_d 30) < mass (trajectory_d lib params_a8_d DT_d 31)"
proof -
  let ?p = params_a8_d
  let ?T = "trajectory_d lib ?p DT_d"
  have s: "start_of ?p = 0" "burnTime (motor ?p) = rd 0.5"
    "dryMass ?p = rd 0.232" "motor_dryMass (motor ?p) = rd 0.012"
    "propellantMass (motor ?p) = rd 0.006"
    by (simp_all add: params_a8_d_def motor_a8_d_def start_of_def)
  note t = frame_times [of lib ?p]
  have e: "burn_end_d ?p = 1 / 2"
    by (simp add: burn_end_d_def s fadd_def rd_0_5)
  have ib: "in_burn_d ?p (time (?T 30))"
    unfolding in_burn_d_def e s t by simp
  have af: "burn_end_d ?p \<le> time (?T 31)"
    unfolding e t by simp
  have bm: "burn_mass_d ?p (9007199254740991 / 2 ^ 54) = 1098878309078401 / 2 ^ 52"
    by (simp only: burn_mass_d_def s fadd_def fsub_def fmul_def fdiv_def rd_a8_elapsed
          rd_0_5 rd_0_232 rd_0_012 rd_0_006 rd_a8_dry rd_a8_full rd_a8_fraction rd_a8_used
          rd_a8_mass)
  have Suc_29: "Suc 29 = 30" by simp
  have "mass (?T (Suc 29)) = burn_mass_d ?p (time (?T (Suc 29)))"
    by (rule mass_in_burn_d) (simp only: Suc_29 ib)
  then have m30: "mass (?T 30) = 1098878309078401 / 2 ^ 52"
    unfolding Suc_29 t bm .
  have "0 \<le> DT_d" using DT_d_bounds by simp
  then have inv: "mass_inv_d lib ?p DT_d 31" by (rule mass_inv_d_all)
  have "in_burn_d ?p (time (?T (Suc 29)))"
    by (simp only: Suc_29 ib)
  then have "burn_sampled_d lib ?p DT_d (Suc 29)"
    by (subst burn_sampled_d.simps(2)) (rule disjI2)
  then have "burn_sampled_d lib ?p DT_d 31"
    by (rule burn_sampled_d_later) simp
  then have "mass (?T 31) = fadd (dryMass ?p) (motor_dryMass (motor ?p))"
    using inv af by (simp add: mass_inv_d_def Let_def)
  then have m31: "mass (?T 31) = 8791026472627209 / 2 ^ 55"
    by (simp only: s fadd_def rd_0_232 rd_0_012 rd_a8_dry)
  have lt: "mass (?T 30) < mass (?T 31)"
    unfolding m30 m31 by simp
  show ?thesis
    using getSimParams_d_a8 [of lib] ib m30 af m31 lt by blast
qed

text \<open>The first output times for a timestep of half a second.\<close>

lemma half_step_times:
  "time (trajectory_d lib p (1 / 2) (Suc 0)) = 1 / 2"
  "time (trajectory_d lib p (1 / 2) (Suc 2)) = 3 / 2"
  "time (trajectory_d lib p (1 / 2) (Suc 3)) = 2"
  "time (trajectory_d lib p (1 / 2) (Suc 5)) = 3"
  by (simp_all add: eval_nat_numeral step_d_time fadd_def createSimulationState_d_def
        initialState_d_def Let_def)

text \<open>
  Claim C4, amended.  Along every trajectory from the initial state with a positive
  timestep, in the doubles of the code: the initial mass is dry mass plus propellant plus
  casing, added in this order; the mass of an output state is the initial mass before
  ignition and as long as no output time has fallen into the burn window; when the output
  time \<open>t\<close> lies within the burn window it is \<open>burn_mass_d\<close>, that is dry mass plus
  casing plus propellant minus the propellant times the elapsed fraction of the burn time;
  between two output states within the burn window the later mass is at most the earlier
  one, for a propellant mass that is not negative and a positive burn time; and at and
  after burnout the mass is dry mass plus casing, provided an output time has fallen into
  the burn window, which is so when the ignition time is 0 and the timestep is a double
  smaller than the burn time.
\<close>

theorem mass_along_trajectory:
  assumes "0 < dt"
  shows "mass (createSimulationState_d lib p)
           = fadd (fadd (dryMass p) (propellantMass (motor p))) (motor_dryMass (motor p))
   \<and> (time (trajectory_d lib p dt (Suc n)) < start_of p \<longrightarrow>
         mass (trajectory_d lib p dt (Suc n)) = mass (createSimulationState_d lib p))
   \<and> (\<not> burn_sampled_d lib p dt (Suc n) \<longrightarrow>
         mass (trajectory_d lib p dt (Suc n)) = mass (createSimulationState_d lib p))
   \<and> (in_burn_d p (time (trajectory_d lib p dt (Suc n))) \<longrightarrow>
         mass (trajectory_d lib p dt (Suc n))
           = burn_mass_d p (time (trajectory_d lib p dt (Suc n))))
   \<and> (in_burn_d p (time (trajectory_d lib p dt (Suc i)))
        \<and> in_burn_d p (time (trajectory_d lib p dt (Suc j))) \<and> i \<le> j
        \<and> 0 \<le> propellantMass (motor p) \<and> 0 < burnTime (motor p) \<longrightarrow>
         mass (trajectory_d lib p dt (Suc j)) \<le> mass (trajectory_d lib p dt (Suc i)))
   \<and> (burn_end_d p \<le> time (trajectory_d lib p dt (Suc n))
        \<and> burn_sampled_d lib p dt (Suc n) \<longrightarrow>
         mass (trajectory_d lib p dt (Suc n)) = fadd (dryMass p) (motor_dryMass (motor p)))
   \<and> (start_of p = 0 \<and> rd dt = dt \<and> rd (burnTime (motor p)) = burnTime (motor p)
        \<and> dt < burnTime (motor p) \<longrightarrow>
         burn_sampled_d lib p dt (Suc n))"
proof -
  have dt: "0 \<le> dt" using assms by simp
  define T where "T = trajectory_d lib p dt"
  have inv: "mass_inv_d lib p dt (Suc n)" using dt by (rule mass_inv_d_all)
  have i2: "\<not> burn_sampled_d lib p dt (Suc n)
              \<Longrightarrow> mass (T (Suc n)) = mass (createSimulationState_d lib p)"
    and i3: "burn_sampled_d lib p dt (Suc n) \<Longrightarrow> start_of p \<le> time (T (Suc n))"
    and i5: "burn_sampled_d lib p dt (Suc n) \<Longrightarrow> burn_end_d p \<le> time (T (Suc n))
               \<Longrightarrow> mass (T (Suc n)) = fadd (dryMass p) (motor_dryMass (motor p))"
    using inv by (simp_all add: mass_inv_d_def Let_def T_def)
  have a: "mass (createSimulationState_d lib p)
             = fadd (fadd (dryMass p) (propellantMass (motor p))) (motor_dryMass (motor p))"
    by (simp add: createSimulationState_d_def initialState_d_def Let_def)
  have b: "mass (T (Suc n)) = mass (createSimulationState_d lib p)"
    if "time (T (Suc n)) < start_of p"
    using that i2 i3 by fastforce
  have burn: "mass (T (Suc k)) = burn_mass_d p (time (T (Suc k)))"
    if "in_burn_d p (time (T (Suc k)))" for k
    using that by (simp add: T_def step_d_mass step_d_time)
  have c: "mass (T (Suc j)) \<le> mass (T (Suc i))"
    if "in_burn_d p (time (T (Suc i))) \<and> in_burn_d p (time (T (Suc j))) \<and> i \<le> j
        \<and> 0 \<le> propellantMass (motor p) \<and> 0 < burnTime (motor p)"
  proof -
    have "time (T (Suc i)) \<le> time (T (Suc j))"
      unfolding T_def using dt that by (intro trajectory_d_time_mono) simp_all
    then have "burn_mass_d p (time (T (Suc j))) \<le> burn_mass_d p (time (T (Suc i)))"
      using that by (intro burn_mass_d_antimono) simp_all
    then show ?thesis using that burn by simp
  qed
  have d: "burn_sampled_d lib p dt (Suc n)"
    if "start_of p = 0 \<and> rd dt = dt \<and> rd (burnTime (motor p)) = burnTime (motor p)
        \<and> dt < burnTime (motor p)"
    using that dt by (intro burn_sampled_d_first) simp_all
  show ?thesis
    unfolding T_def [symmetric] using a b i2 burn c i5 d by blast
qed

theorem mass_along_trajectory_witness:
  "(0::real) < 1 / 2
   \<and> time (trajectory_d correctly_rounded params_delayed_d (1 / 2) (Suc 0))
        < start_of params_delayed_d
   \<and> \<not> burn_sampled_d correctly_rounded params_delayed_d (1 / 2) (Suc 0)
   \<and> mass (trajectory_d correctly_rounded params_delayed_d (1 / 2) (Suc 0))
        = mass (createSimulationState_d correctly_rounded params_delayed_d)
   \<and> in_burn_d params_delayed_d
        (time (trajectory_d correctly_rounded params_delayed_d (1 / 2) (Suc 2)))
   \<and> mass (trajectory_d correctly_rounded params_delayed_d (1 / 2) (Suc 2))
        = burn_mass_d params_delayed_d (3 / 2)
   \<and> in_burn_d params_delayed_d
        (time (trajectory_d correctly_rounded params_delayed_d (1 / 2) (Suc 3)))
   \<and> (2::nat) \<le> 3 \<and> 0 \<le> propellantMass (motor params_delayed_d)
   \<and> 0 < burnTime (motor params_delayed_d)
   \<and> mass (trajectory_d correctly_rounded params_delayed_d (1 / 2) (Suc 3))
        \<le> mass (trajectory_d correctly_rounded params_delayed_d (1 / 2) (Suc 2))
   \<and> burn_end_d params_delayed_d
        \<le> time (trajectory_d correctly_rounded params_delayed_d (1 / 2) (Suc 5))
   \<and> burn_sampled_d correctly_rounded params_delayed_d (1 / 2) (Suc 5)
   \<and> mass (trajectory_d correctly_rounded params_delayed_d (1 / 2) (Suc 5))
        = fadd (dryMass params_delayed_d) (motor_dryMass (motor params_delayed_d))
   \<and> start_of params_c6_d = 0 \<and> rd (1 / 2) = 1 / 2
   \<and> rd (burnTime (motor params_c6_d)) = burnTime (motor params_c6_d)
   \<and> 1 / 2 < burnTime (motor params_c6_d)
   \<and> burn_sampled_d correctly_rounded params_c6_d (1 / 2) (Suc 0)"
proof -
  let ?lib = correctly_rounded and ?p = params_delayed_d
  let ?T = "trajectory_d ?lib ?p (1 / 2)"
  have s: "start_of ?p = 1" "burnTime (motor ?p) = rd 1.6"
    "propellantMass (motor ?p) = rd 0.024"
    "start_of params_c6_d = 0" "burnTime (motor params_c6_d) = rd 1.6"
    by (simp_all add: params_delayed_d_def params_c6_d_def motor_c6_d_def start_of_def)
  note t = half_step_times [of ?lib ?p]
  have e: "5 / 2 \<le> burn_end_d ?p" "burn_end_d ?p \<le> 3"
    using rd_mono [of "5 / 2" "1 + rd 1.6"] rd_mono [of "1 + rd 1.6" 3] burnTime_c6_bounds
    by (simp_all add: burn_end_d_def s fadd_def)
  have h: "(0::real) < 1 / 2" and le: "(2::nat) \<le> 3" by simp_all
  have pm: "0 \<le> propellantMass (motor ?p)" unfolding s by (rule rd_nonneg) simp
  have bt: "0 < burnTime (motor ?p)" "1 / 2 < burnTime (motor params_c6_d)"
    using burnTime_c6_bounds by (simp_all add: s)
  have rb: "rd (burnTime (motor params_c6_d)) = burnTime (motor params_c6_d)"
    unfolding s by (rule rd_idem)
  have t1: "time (?T (Suc 0)) < start_of ?p" unfolding t s by simp
  have ib1: "\<not> in_burn_d ?p (time (?T (Suc 0)))"
    unfolding t in_burn_d_def s by simp
  have ib3: "in_burn_d ?p (time (?T (Suc 2)))" and ib4: "in_burn_d ?p (time (?T (Suc 3)))"
    unfolding t in_burn_d_def s using e(1) by simp_all
  have af: "burn_end_d ?p \<le> time (?T (Suc 5))" unfolding t by (rule e(2))
  have bs1: "\<not> burn_sampled_d ?lib ?p (1 / 2) (Suc 0)"
    unfolding burn_sampled_d.simps using ib1 by blast
  have "burn_sampled_d ?lib ?p (1 / 2) (Suc 2)"
    unfolding burn_sampled_d.simps(2) [of _ _ _ 2] using ib3 by blast
  then have bs6: "burn_sampled_d ?lib ?p (1 / 2) (Suc 5)"
    by (rule burn_sampled_d_later) simp
  note M = mass_along_trajectory [OF h]
  have m1: "mass (?T (Suc 0)) = mass (createSimulationState_d ?lib ?p)"
    using M [of ?lib ?p 0 2 3] bs1 by blast
  have "mass (?T (Suc 2)) = burn_mass_d ?p (time (?T (Suc 2)))"
    using M [of ?lib ?p 2 2 3] ib3 by blast
  then have m3: "mass (?T (Suc 2)) = burn_mass_d ?p (3 / 2)" unfolding t .
  have m4: "mass (?T (Suc 3)) \<le> mass (?T (Suc 2))"
    using M [of ?lib ?p 2 2 3] ib3 ib4 le pm bt(1) by blast
  have m6: "mass (?T (Suc 5)) = fadd (dryMass ?p) (motor_dryMass (motor ?p))"
    using M [of ?lib ?p 5 2 3] af bs6 by blast
  have sc: "burn_sampled_d ?lib params_c6_d (1 / 2) (Suc 0)"
    using M [of ?lib params_c6_d 0 2 3] s(4) rd_half rb bt(2) by blast
  show ?thesis
    using h t1 bs1 m1 ib3 m3 ib4 le pm bt m4 af bs6 m6 s(4) rd_half rb sc
    by blast
qed

end
